theory Spec2Isabelle
  imports Main "HOL-Library.Word"
begin

section \<open>Route manager (soc/flight/route\_mgr.cpp)\<close>

text \<open>
  \<open>FGRouteMgr\<close> owns two routes, \<open>active\<close> and \<open>standby\<close>, allocated separately by the
  constructor and only ever exchanged by \<open>swap\<close>, so they never alias: the model holds
  them by value. The classes \<open>SGRoute\<close> (route.hxx) and \<open>SGWayPoint\<close> (waypoint.hxx) are
  not among the sources; the member functions route\_mgr.cpp calls on them are parameters
  of the model, collected in \<open>SGRoute_ops\<close>. \<open>'r\<close> is the type of a route, \<open>'w\<close> of a
  waypoint and \<open>'j\<close> of the JSON value one waypoint is constructed from.
\<close>

record ('r, 'w, 'j) SGRoute_ops =
  size_route :: "'r \<Rightarrow> nat"
  clear_route :: "'r \<Rightarrow> 'r"
  add_waypoint :: "'w \<Rightarrow> 'r \<Rightarrow> 'r"
  set_current :: "int \<Rightarrow> 'r \<Rightarrow> 'r"
  SGWayPoint_of :: "'j \<Rightarrow> 'w"

text \<open>
  What \<open>build\<close> reads of its \<open>rapidjson::Value\<close>: whether it has a member
  \<open>"waypoints"\<close> (\<open>None\<close> when it has not) and the elements of that array in order.
\<close>

record 'j RouteConfig =
  waypoints :: "'j list option"

datatype StartMode = FIRST_WPT | FIRST_LEG

datatype CompletionMode = LOOP | EXTEND_LAST_LEG

text \<open>
  The fields of \<open>FGRouteMgr\<close> that \<open>init\<close>, \<open>build\<close> and \<open>swap\<close> read or write, and the
  two mode fields. The navigation outputs (doubles and floats written by \<open>update\<close> only)
  ride in the record's extension \<open>'z\<close>: every function below is stated for any extension
  and leaves it alone.
\<close>

record 'r FGRouteMgr =
  active :: 'r
  standby :: 'r
  pos_set :: bool
  start_mode :: StartMode
  completion_mode :: CompletionMode

text \<open>\<open>exit(-1)\<close> ends the process: it is the error value of \<open>init\<close>.\<close>

datatype process_exit = Exit int

text \<open>\<open>FGRouteMgr::swap\<close>, lines 203 to 219.\<close>

definition swap ::
  "('r, 'w, 'j) SGRoute_ops \<Rightarrow> ('r, 'z) FGRouteMgr_scheme \<Rightarrow> bool \<times> ('r, 'z) FGRouteMgr_scheme"
where
  "swap ops m =
     (if size_route ops (standby m) = 0 then (False, m)
      else
        let tmp = active m;
            m = m\<lparr>active := standby m\<rparr>;
            m = m\<lparr>standby := tmp\<rparr>;
            m = m\<lparr>active := set_current ops 0 (active m)\<rparr>;
            m = m\<lparr>pos_set := False\<rparr>
        in (True, m))"

text \<open>The loop of \<open>build\<close> over the array: one \<open>add_waypoint\<close> per element, in order.\<close>

primrec add_waypoints :: "('r, 'w, 'j) SGRoute_ops \<Rightarrow> 'j list \<Rightarrow> 'r \<Rightarrow> 'r" where
  "add_waypoints ops [] r = r"
| "add_waypoints ops (it # its) r =
     add_waypoints ops its (add_waypoint ops (SGWayPoint_of ops it) r)"

text \<open>\<open>FGRouteMgr::build\<close>, lines 223 to 234 (the \<open>printf\<close> is not modelled).\<close>

definition build ::
  "('r, 'w, 'j) SGRoute_ops \<Rightarrow> 'j RouteConfig \<Rightarrow> ('r, 'z) FGRouteMgr_scheme
     \<Rightarrow> bool \<times> ('r, 'z) FGRouteMgr_scheme"
where
  "build ops Config m =
     (let m = m\<lparr>standby := clear_route ops (standby m)\<rparr>;
          m = (case waypoints Config of
                 None \<Rightarrow> m
               | Some its \<Rightarrow> m\<lparr>standby := add_waypoints ops its (standby m)\<rparr>)
      in (True, m))"

text \<open>
  \<open>FGRouteMgr::init\<close>, lines 43 to 71: the part after the signal bindings. The result of
  the final \<open>swap()\<close> is discarded, as in the source.
\<close>

definition init ::
  "('r, 'w, 'j) SGRoute_ops \<Rightarrow> 'j RouteConfig \<Rightarrow> ('r, 'z) FGRouteMgr_scheme
     \<Rightarrow> process_exit + ('r, 'z) FGRouteMgr_scheme"
where
  "init ops Config m =
     (let m = m\<lparr>active := clear_route ops (active m)\<rparr>;
          m = m\<lparr>standby := clear_route ops (standby m)\<rparr>;
          (ok, m) = build ops Config m
      in if \<not> ok then Inl (Exit (- 1)) else Inr (snd (swap ops m)))"

text \<open>
  An instance of the route interface on lists, used to run the definitions above on
  concrete routes: a route is its waypoints and the index of the current one,
  \<open>set_current\<close> ignores an index outside the route.
\<close>

record 'w list_route =
  route :: "'w list"
  current_wp :: int

definition list_route_ops :: "('w list_route, 'w, 'w) SGRoute_ops" where
  "list_route_ops =
     \<lparr>size_route = (\<lambda>r. length (route r)),
      clear_route = (\<lambda>r. r\<lparr>route := []\<rparr>),
      add_waypoint = (\<lambda>w r. r\<lparr>route := route r @ [w]\<rparr>),
      set_current = (\<lambda>n r. if 0 \<le> n \<and> n < int (length (route r)) then r\<lparr>current_wp := n\<rparr> else r),
      SGWayPoint_of = (\<lambda>j. j)\<rparr>"

section \<open>Message mailbox (fmu/comms.h)\<close>

type_synonym byte = "8 word"

text \<open>\<open>enum AircraftSocComms::Message\<close>, comms.h lines 33 to 38, in the order declared.\<close>

datatype Message = ModeCommand | Configuration | SensorData | EffectorCommand

text \<open>
  Modelled from the spec: the kind byte of a frame (the framing is in comms.cpp and
  SerialLink, not among the sources). Section 6: kind values map one to one to the
  enum; the byte is the value of the enumerator, which C++ numbers from 0 in the order
  declared.
\<close>

fun byte_of_Message :: "Message \<Rightarrow> byte" where
  "byte_of_Message ModeCommand = 0"
| "byte_of_Message Message.Configuration = 1"
| "byte_of_Message SensorData = 2"
| "byte_of_Message EffectorCommand = 3"

text \<open>
  Modelled from the spec: the inverse of the coding above; a byte that is no
  enumerator's value is an unknown kind.
\<close>

definition Message_of_byte :: "byte \<Rightarrow> Message option" where
  "Message_of_byte b =
     (if b = 0 then Some ModeCommand
      else if b = 1 then Some Message.Configuration
      else if b = 2 then Some SensorData
      else if b = 3 then Some EffectorCommand
      else None)"

text \<open>
  Modelled from the spec: the frame the serial link (SerialLink.h, not among the sources)
  carries, section 6: kind, length, payload. The spec leaves the width of the length
  field open and treats escaping and checksums as the link's business, so the length is
  a natural number and a frame is this triple, not a byte string.
\<close>

record frame =
  frame_kind :: byte
  frame_length :: nat
  frame_payload :: "byte list"

text \<open>
  The private members of \<open>AircraftSocComms\<close>, comms.h lines 49 to 53. \<open>bus_\<close> stands for
  the link: the frames written to it so far, oldest first (\<open>baud_\<close> is left out). The
  three \<open>Received\<close> members are the single slot of the mailbox. The names are those of
  comms.h without the trailing underscore.
\<close>

record AircraftSocComms =
  bus :: "frame list"
  MessageReceived :: bool
  ReceivedMessage :: Message
  ReceivedPayload :: "byte list"

text \<open>
  comms.cpp is not among the sources: each member function declared in comms.h is
  modelled from the spec, section 4.1.
\<close>

text \<open>
  Modelled from the spec: the framing step of \<open>send\<close> (comms.cpp is missing): the frame
  of a kind and a payload.
\<close>

definition frame_of :: "Message \<Rightarrow> byte list \<Rightarrow> frame" where
  "frame_of message Payload =
     \<lparr>frame_kind = byte_of_Message message, frame_length = length Payload,
      frame_payload = Payload\<rparr>"

text \<open>
  Modelled from the spec: \<open>AircraftSocComms::SendMessage\<close> (comms.cpp is missing), the
  spec's \<open>send\<close>: frames kind and payload and writes them to the transport.
\<close>

definition SendMessage :: "Message \<Rightarrow> byte list \<Rightarrow> AircraftSocComms \<Rightarrow> AircraftSocComms" where
  "SendMessage message Payload c = c\<lparr>bus := bus c @ [frame_of message Payload]\<rparr>"

text \<open>
  Modelled from the spec: \<open>AircraftSocComms::SendSensorData\<close> (comms.cpp is missing),
  the spec's \<open>sendSensorTelemetry\<close>: equivalent to \<open>send(SensorData, buffer)\<close>.
\<close>

definition SendSensorData :: "byte list \<Rightarrow> AircraftSocComms \<Rightarrow> AircraftSocComms" where
  "SendSensorData DataBuffer c = SendMessage SensorData DataBuffer c"

text \<open>
  Modelled from the spec: \<open>AircraftSocComms::ReceiveMessage\<close> (comms.cpp is missing),
  the decoding step of the spec's \<open>pump\<close>. Its argument is what the link delivers when polled: \<open>None\<close> when no
  complete frame is available. A malformed frame (unknown kind byte, length that is not
  the payload's) is dropped.
\<close>

definition ReceiveMessage :: "frame option \<Rightarrow> (Message \<times> byte list) option" where
  "ReceiveMessage rx =
     (case rx of
        None \<Rightarrow> None
      | Some f \<Rightarrow>
          (case Message_of_byte (frame_kind f) of
             None \<Rightarrow> None
           | Some message \<Rightarrow>
               if frame_length f = length (frame_payload f)
               then Some (message, frame_payload f) else None))"

text \<open>
  Modelled from the spec: \<open>AircraftSocComms::CheckMessages\<close> (comms.cpp is missing),
  the spec's \<open>pump\<close>: a
  decoded frame is stored as the single pending message, overwriting any previous one;
  with no frame, or a malformed one, nothing changes.
\<close>

definition CheckMessages :: "frame option \<Rightarrow> AircraftSocComms \<Rightarrow> AircraftSocComms" where
  "CheckMessages rx c =
     (case ReceiveMessage rx of
        None \<Rightarrow> c
      | Some (message, Payload) \<Rightarrow>
          c\<lparr>MessageReceived := True, ReceivedMessage := message, ReceivedPayload := Payload\<rparr>)"

text \<open>
  Modelled from the spec: \<open>tryReceive(expectedKind)\<close>, the contract the typed accessors
  of comms.h share (their bodies, in comms.cpp, are missing): the payload is returned and the slot cleared only if the pending
  message's kind is the expected one; otherwise the slot is untouched and the result
  absent.
\<close>

definition tryReceive :: "Message \<Rightarrow> AircraftSocComms \<Rightarrow> byte list option \<times> AircraftSocComms" where
  "tryReceive expectedKind c =
     (if MessageReceived c \<and> ReceivedMessage c = expectedKind
      then (Some (ReceivedPayload c), c\<lparr>MessageReceived := False\<rparr>)
      else (None, c))"

text \<open>
  A run of \<open>tryReceive\<close> calls with no \<open>pump\<close> between them, one per expected kind
  of the list: the result of each call, in order.
\<close>

fun tryReceive_all :: "Message list \<Rightarrow> AircraftSocComms \<Rightarrow> byte list option list" where
  "tryReceive_all [] c = []"
| "tryReceive_all (expectedKind # kinds) c =
     fst (tryReceive expectedKind c) # tryReceive_all kinds (snd (tryReceive expectedKind c))"

text \<open>
  A single-precision value as the mailbox sees it: its four bytes, in the order they
  have in the payload. No arithmetic is done on it.
\<close>

datatype float32 = Float32 byte byte byte byte

fun bytes_of_float32 :: "float32 \<Rightarrow> byte list" where
  "bytes_of_float32 (Float32 a b c d) = [a, b, c, d]"

fun floats_of_bytes :: "byte list \<Rightarrow> float32 list" where
  "floats_of_bytes (a # b # c # d # rest) = Float32 a b c d # floats_of_bytes rest"
| "floats_of_bytes _ = []"

text \<open>
  Modelled from the spec: the decoding of a typed accessor (the accessors' bodies, in
  comms.cpp, are missing). The accessor looks at the
  pending message; when its kind is the accessor's and the payload has the expected
  shape the message is consumed (\<open>tryReceive\<close>); when the shape is wrong the accessor
  reports failure and the slot is left as it is.
\<close>

definition typed_receive ::
  "Message \<Rightarrow> (byte list \<Rightarrow> 'a option) \<Rightarrow> AircraftSocComms \<Rightarrow> 'a option \<times> AircraftSocComms"
where
  "typed_receive kind decode c =
     (if MessageReceived c \<and> ReceivedMessage c = kind
      then (case decode (ReceivedPayload c) of
              None \<Rightarrow> (None, c)
            | Some v \<Rightarrow> (Some v, snd (tryReceive kind c)))
      else (None, c))"

text \<open>
  Modelled from the spec: the decoding of an effector-command payload (comms.cpp is
  missing): payload-length / 4 floats, and a length that is not a multiple of 4 is a
  failure. The spec's second failure, a count that is not the expected effector count,
  is not modelled: the accessor of comms.h is handed the output vector only and the class
  holds no effector count.
\<close>

definition decode_EffectorCommand :: "byte list \<Rightarrow> float32 list option" where
  "decode_EffectorCommand Payload =
     (if length Payload mod 4 = 0 then Some (floats_of_bytes Payload) else None)"

text \<open>
  Modelled from the spec: \<open>AircraftSocComms::ReceiveEffectorCommand\<close> (comms.cpp is
  missing): the typed accessor of the kind \<open>EffectorCommand\<close>.
\<close>

definition ReceiveEffectorCommand :: "AircraftSocComms \<Rightarrow> float32 list option \<times> AircraftSocComms" where
  "ReceiveEffectorCommand c = typed_receive EffectorCommand decode_EffectorCommand c"

text \<open>
  Modelled from the spec: \<open>AircraftSocComms::ReceiveConfigMessage\<close> (comms.cpp is
  missing): the payload is handed on verbatim (a \<open>std::vector<char>\<close> of the same
  bytes).
\<close>

definition ReceiveConfigMessage :: "AircraftSocComms \<Rightarrow> byte list option \<times> AircraftSocComms" where
  "ReceiveConfigMessage c = typed_receive Message.Configuration Some c"

section \<open>Mission (fmu/mission.h, not among the sources)\<close>

text \<open>
  \<open>AircraftMission::Mode\<close>. main.cpp names \<open>Run\<close> and \<open>Configuration\<close>; further modes
  of the collaborator, in which neither branch of the loop runs, are \<open>Further_Mode\<close>.
\<close>

datatype Mode = Configuration | Run | Further_Mode nat

text \<open>\<open>AircraftMission::State\<close>, the four states main.cpp tests for.\<close>

datatype State = SyncDataCollection | AsyncDataCollection | FlightControl | EffectorOutput

text \<open>
  Modelled from the spec: the state of \<open>AircraftMission\<close> (mission.h and mission.cpp
  are missing), section 3: the mode, the
  current state, the staged requested mode, the three flags, and the two switches the
  loop reads: the selectors \<open>UseSocEffectorComands\<close> and \<open>ThrottleSafed\<close> are the
  member functions of these names.
\<close>

record AircraftMission =
  mission_Mode :: Mode
  mission_State :: State
  mission_RequestedMode :: Mode
  ImuDataReady :: bool
  FlightControlFlag :: bool
  EffectorOutputFlag :: bool
  UseSocEffectorComands :: bool
  ThrottleSafed :: bool

text \<open>
  The member functions of \<open>AircraftMission\<close> main.cpp calls are each modelled from the
  spec, sections 3 and 4.2: a flag is one boolean, set or cleared by the call.
\<close>

text \<open>
  Modelled from the spec: \<open>AircraftMission::SetImuDataReady\<close> (mission.cpp is missing):
  sets the flag.
\<close>

definition SetImuDataReady :: "AircraftMission \<Rightarrow> AircraftMission" where
  "SetImuDataReady m = m\<lparr>ImuDataReady := True\<rparr>"

text \<open>
  Modelled from the spec: \<open>AircraftMission::ClearImuDataReady\<close> (mission.cpp is
  missing): clears the flag.
\<close>

definition ClearImuDataReady :: "AircraftMission \<Rightarrow> AircraftMission" where
  "ClearImuDataReady m = m\<lparr>ImuDataReady := False\<rparr>"

text \<open>
  Modelled from the spec: \<open>AircraftMission::ClearFlightControlFlag\<close> (mission.cpp is
  missing): clears the flag.
\<close>

definition ClearFlightControlFlag :: "AircraftMission \<Rightarrow> AircraftMission" where
  "ClearFlightControlFlag m = m\<lparr>FlightControlFlag := False\<rparr>"

text \<open>
  Modelled from the spec: \<open>AircraftMission::ClearEffectorOutputFlag\<close> (mission.cpp is
  missing): clears the flag.
\<close>

definition ClearEffectorOutputFlag :: "AircraftMission \<Rightarrow> AircraftMission" where
  "ClearEffectorOutputFlag m = m\<lparr>EffectorOutputFlag := False\<rparr>"

text \<open>
  Modelled from the spec: \<open>AircraftMission::SetRequestedMode\<close> (mission.cpp is
  missing): stages the requested mode; the mode itself is not touched.
\<close>

definition SetRequestedMode :: "Mode \<Rightarrow> AircraftMission \<Rightarrow> AircraftMission" where
  "SetRequestedMode mode m = m\<lparr>mission_RequestedMode := mode\<rparr>"

text \<open>
  Modelled from the spec: \<open>AircraftMission::GetMode\<close> (mission.cpp is missing): reads
  the mode.
\<close>

definition GetMode :: "AircraftMission \<Rightarrow> Mode" where
  "GetMode m = mission_Mode m"

text \<open>
  Modelled from the spec: \<open>AircraftMission::GetState\<close> (mission.cpp is missing): reads
  the current state.
\<close>

definition GetState :: "AircraftMission \<Rightarrow> State" where
  "GetState m = mission_State m"

text \<open>
  Modelled from the spec: \<open>AircraftMission::UpdateMode\<close> (mission.cpp is missing),
  section 4.2: the staged
  \<open>RequestedMode\<close> is applied, once per iteration, before the states are evaluated.
\<close>

definition UpdateMode :: "AircraftMission \<Rightarrow> AircraftMission" where
  "UpdateMode m = m\<lparr>mission_Mode := mission_RequestedMode m\<rparr>"

text \<open>
  \<open>AircraftMission::UpdateState\<close> (mission.cpp is missing) chooses the state of the
  iteration. How it chooses from the flags is not in the sources, and the spec gives
  each state a condition of its own but no rule that picks one; main.cpp reads one state
  per iteration through \<open>GetState\<close>. The chosen state is a parameter; the conditions
  of the spec are \<open>eligible\<close> below, a hypothesis of the theorem on the one-shot flags.
\<close>

definition UpdateState :: "State \<Rightarrow> AircraftMission \<Rightarrow> AircraftMission" where
  "UpdateState chosen m = m\<lparr>mission_State := chosen\<rparr>"

text \<open>
  Modelled from the spec: the decoding of a mode-command payload (comms.cpp is missing):
  one enum-coded byte. The coding of \<open>AircraftMission::Mode\<close> is in mission.h, which is
  missing too: the decoder \<open>mode_of_byte\<close> is a parameter.
\<close>

definition decode_ModeCommand :: "(byte \<Rightarrow> Mode option) \<Rightarrow> byte list \<Rightarrow> Mode option" where
  "decode_ModeCommand mode_of_byte Payload =
     (case Payload of [b] \<Rightarrow> mode_of_byte b | _ \<Rightarrow> None)"

text \<open>
  Modelled from the spec: \<open>AircraftSocComms::ReceiveModeCommand\<close> (comms.cpp is
  missing): the typed accessor of the kind \<open>ModeCommand\<close>.
\<close>

definition ReceiveModeCommand ::
  "(byte \<Rightarrow> Mode option) \<Rightarrow> AircraftSocComms \<Rightarrow> Mode option \<times> AircraftSocComms"
where
  "ReceiveModeCommand mode_of_byte c =
     typed_receive ModeCommand (decode_ModeCommand mode_of_byte) c"

text \<open>A decoder for the examples: the enumerators numbered in the order of \<open>Mode\<close>.\<close>

definition example_mode_of_byte :: "byte \<Rightarrow> Mode option" where
  "example_mode_of_byte b =
     (if b = 0 then Some Mode.Configuration else if b = 1 then Some Run else None)"

section \<open>The control loop (fmu/main.cpp)\<close>

text \<open>
  The calls the loop makes on its collaborators (Mission, Sensors, Control, Effectors,
  Config, SocComms), with the arguments main.cpp passes where they are data of the loop.
  Reads that change nothing (\<open>GetMode\<close>, \<open>GetState\<close>, \<open>GetDataBuffer\<close>,
  \<open>ActiveControlLevels\<close>, \<open>ThrottleSafed\<close>, \<open>UseSocEffectorComands\<close>) are not recorded.
\<close>

datatype Call =
    Mission_UpdateMode
  | Mission_UpdateState
  | Mission_ClearImuDataReady
  | Sensors_ReadSyncSensors
  | SocComms_SendSensorData "byte list"
  | Sensors_ReadAsyncSensors
  | Mission_ClearFlightControlFlag
  | Control_Run nat
  | Effectors_ComputeOutputs bool
  | Mission_ClearEffectorOutputFlag
  | Effectors_CommandEffectors
  | SocComms_ReceiveEffectorCommand
  | Effectors_SetCommands "float32 list" bool
  | SocComms_ReceiveConfigMessage
  | Config_Update "byte list"
  | SocComms_ReceiveModeCommand
  | Mission_SetRequestedMode Mode
  | SocComms_CheckMessages

text \<open>
  What the collaborators outside the sources answer during one iteration: the state
  \<open>Mission.UpdateState\<close> chooses, the buffer \<open>Sensors.GetDataBuffer\<close> fills, the value of
  \<open>Control.ActiveControlLevels()\<close> (the same at every test of the \<open>for\<close> loop), and the
  frame the link delivers to \<open>CheckMessages\<close> (\<open>None\<close> when there is none).
\<close>

record env =
  chosen_State :: State
  DataBuffer :: "byte list"
  ActiveControlLevels :: nat
  delivered :: "frame option"

text \<open>
  The globals of main.cpp the loop reads and writes (lines 35 to 53), and the calls made
  so far, oldest first. What the Sensors, Control, Effectors and Config collaborators do
  when called (\<open>Config.Update\<close> is handed the other collaborators) is not in the sources
  and outside the model: their calls are recorded.
\<close>

record fmu =
  SocComms :: AircraftSocComms
  Mission :: AircraftMission
  MissionMode :: Mode
  MissionState :: State
  RequestedMode :: Mode
  EffectorCommands :: "float32 list"
  calls :: "Call list"

definition call :: "Call \<Rightarrow> fmu \<Rightarrow> fmu" where
  "call c s = s\<lparr>calls := calls s @ [c]\<rparr>"

text \<open>\<open>ImuInterrupt\<close>, lines 56 to 59.\<close>

definition ImuInterrupt :: "fmu \<Rightarrow> fmu" where
  "ImuInterrupt s = s\<lparr>Mission := SetImuDataReady (Mission s)\<rparr>"

text \<open>Lines 89 to 98.\<close>

definition SyncDataCollection_block :: "env \<Rightarrow> fmu \<Rightarrow> fmu" where
  "SyncDataCollection_block e s =
     (let s = call Mission_ClearImuDataReady (s\<lparr>Mission := ClearImuDataReady (Mission s)\<rparr>);
          s = call Sensors_ReadSyncSensors s;
          s = call (SocComms_SendSensorData (DataBuffer e))
                (s\<lparr>SocComms := SendSensorData (DataBuffer e) (SocComms s)\<rparr>)
      in s)"

text \<open>
  Lines 106 to 108:
  \<open>for (size_t i = 0; i < Control.ActiveControlLevels(); i++) Control.Run(i)\<close>.
\<close>

function control_loop :: "nat \<Rightarrow> nat \<Rightarrow> fmu \<Rightarrow> fmu" where
  "control_loop ControlLevelIndex n s =
     (if ControlLevelIndex < n
      then control_loop (Suc ControlLevelIndex) n (call (Control_Run ControlLevelIndex) s)
      else s)"
  by pat_completeness simp_all
termination
proof (relation "measure (\<lambda>(ControlLevelIndex, n, s). n - ControlLevelIndex)")
  show "wf (measure (\<lambda>(ControlLevelIndex, n, s :: fmu). n - ControlLevelIndex))"
    by simp
qed simp

declare control_loop.simps [simp del]

text \<open>Lines 103 to 111.\<close>

definition FlightControl_block :: "env \<Rightarrow> fmu \<Rightarrow> fmu" where
  "FlightControl_block e s =
     (let s = call Mission_ClearFlightControlFlag
                (s\<lparr>Mission := ClearFlightControlFlag (Mission s)\<rparr>);
          s = control_loop 0 (ActiveControlLevels e) s;
          s = call (Effectors_ComputeOutputs (ThrottleSafed (Mission s))) s
      in s)"

text \<open>Lines 112 to 116.\<close>

definition EffectorOutput_block :: "fmu \<Rightarrow> fmu" where
  "EffectorOutput_block s =
     (let s = call Mission_ClearEffectorOutputFlag
                (s\<lparr>Mission := ClearEffectorOutputFlag (Mission s)\<rparr>);
          s = call Effectors_CommandEffectors s
      in s)"

text \<open>
  Lines 118 to 123. On success the accessor has written the floats into the global
  \<open>EffectorCommands\<close>.
\<close>

definition EffectorCommand_block :: "fmu \<Rightarrow> fmu" where
  "EffectorCommand_block s =
     (let (received, c) = ReceiveEffectorCommand (SocComms s);
          s = call SocComms_ReceiveEffectorCommand (s\<lparr>SocComms := c\<rparr>)
      in case received of
           None \<Rightarrow> s
         | Some cmds \<Rightarrow>
             let s = s\<lparr>EffectorCommands := cmds\<rparr>
             in if UseSocEffectorComands (Mission s)
                then call (Effectors_SetCommands (EffectorCommands s) (ThrottleSafed (Mission s))) s
                else s)"

text \<open>Lines 85 to 124, the body of \<open>if (MissionMode == AircraftMission::Run)\<close>.\<close>

definition Run_block :: "env \<Rightarrow> fmu \<Rightarrow> fmu" where
  "Run_block e s =
     (let s = call Mission_UpdateState (s\<lparr>Mission := UpdateState (chosen_State e) (Mission s)\<rparr>);
          s = s\<lparr>MissionState := GetState (Mission s)\<rparr>;
          s = (if MissionState s = SyncDataCollection then SyncDataCollection_block e s else s);
          s = (if MissionState s = AsyncDataCollection then call Sensors_ReadAsyncSensors s else s);
          s = (if MissionState s = FlightControl then FlightControl_block e s else s);
          s = (if MissionState s = EffectorOutput then EffectorOutput_block s else s)
      in EffectorCommand_block s)"

text \<open>Lines 125 to 132, the body of \<open>if (MissionMode == AircraftMission::Configuration)\<close>.\<close>

definition Configuration_block :: "fmu \<Rightarrow> fmu" where
  "Configuration_block s =
     (let (received, c) = ReceiveConfigMessage (SocComms s);
          s = call SocComms_ReceiveConfigMessage (s\<lparr>SocComms := c\<rparr>)
      in case received of
           None \<Rightarrow> s
         | Some ConfigBuffer \<Rightarrow> call (Config_Update ConfigBuffer) s)"

text \<open>Lines 133 to 136.\<close>

definition ModeCommand_block :: "(byte \<Rightarrow> Mode option) \<Rightarrow> fmu \<Rightarrow> fmu" where
  "ModeCommand_block mode_of_byte s =
     (let (received, c) = ReceiveModeCommand mode_of_byte (SocComms s);
          s = call SocComms_ReceiveModeCommand (s\<lparr>SocComms := c\<rparr>)
      in case received of
           None \<Rightarrow> s
         | Some mode \<Rightarrow>
             let s = s\<lparr>RequestedMode := mode\<rparr>
             in call (Mission_SetRequestedMode (RequestedMode s))
                  (s\<lparr>Mission := SetRequestedMode (RequestedMode s) (Mission s)\<rparr>))"

text \<open>One pass through the body of \<open>while (1)\<close>, lines 81 to 139.\<close>

definition loop_iter :: "(byte \<Rightarrow> Mode option) \<Rightarrow> env \<Rightarrow> fmu \<Rightarrow> fmu" where
  "loop_iter mode_of_byte e s =
     (let s = call Mission_UpdateMode (s\<lparr>Mission := UpdateMode (Mission s)\<rparr>);
          s = s\<lparr>MissionMode := GetMode (Mission s)\<rparr>;
          s = (if MissionMode s = Run then Run_block e s else s);
          s = (if MissionMode s = Mode.Configuration then Configuration_block s else s);
          s = ModeCommand_block mode_of_byte s
      in call SocComms_CheckMessages (s\<lparr>SocComms := CheckMessages (delivered e) (SocComms s)\<rparr>))"

text \<open>The calls of one iteration: those \<open>loop_iter\<close> adds to an empty record.\<close>

definition iter_calls :: "(byte \<Rightarrow> Mode option) \<Rightarrow> env \<Rightarrow> fmu \<Rightarrow> Call list" where
  "iter_calls mode_of_byte e s = calls (loop_iter mode_of_byte e (s\<lparr>calls := []\<rparr>))"

text \<open>\<open>before a b cs\<close>: some call \<open>a\<close> of \<open>cs\<close> is followed, later in \<open>cs\<close>, by a call \<open>b\<close>.\<close>

definition before :: "Call \<Rightarrow> Call \<Rightarrow> Call list \<Rightarrow> bool" where
  "before a b cs = (b \<in> set (drop 1 (dropWhile (\<lambda>c. c \<noteq> a) cs)))"

section \<open>Runs of the loop\<close>



text \<open>
  One step of a run: what the outside does to Mission before the iteration (the
  interrupt, the timer logic that sets the one-shot flags, anything else: any function),
  and the answers of the collaborators during the iteration.
\<close>

type_synonym step = "(AircraftMission \<Rightarrow> AircraftMission) \<times> env"

definition outside :: "step \<Rightarrow> fmu \<Rightarrow> fmu" where
  "outside step s = s\<lparr>Mission := fst step (Mission s)\<rparr>"

definition loop_step :: "(byte \<Rightarrow> Mode option) \<Rightarrow> step \<Rightarrow> fmu \<Rightarrow> fmu" where
  "loop_step mode_of_byte step s = loop_iter mode_of_byte (snd step) (outside step s)"

text \<open>The loop run over a list of steps, and the calls it makes, iteration by iteration.\<close>

primrec run_loop :: "(byte \<Rightarrow> Mode option) \<Rightarrow> step list \<Rightarrow> fmu \<Rightarrow> fmu" where
  "run_loop mode_of_byte [] s = s"
| "run_loop mode_of_byte (step # steps) s =
     run_loop mode_of_byte steps (loop_step mode_of_byte step s)"

primrec run_calls :: "(byte \<Rightarrow> Mode option) \<Rightarrow> step list \<Rightarrow> fmu \<Rightarrow> Call list" where
  "run_calls mode_of_byte [] s = []"
| "run_calls mode_of_byte (step # steps) s =
     iter_calls mode_of_byte (snd step) (outside step s)
       @ run_calls mode_of_byte steps (loop_step mode_of_byte step s)"




section \<open>Observations the theorems are stated with\<close>

text \<open>The single slot of the mailbox: pending flag, stored kind, stored payload.\<close>

definition slot :: "AircraftSocComms \<Rightarrow> bool \<times> Message \<times> byte list" where
  "slot c = (MessageReceived c, ReceivedMessage c, ReceivedPayload c)"

text \<open>
  The calls the handler of each state makes, written out from lines 89 to 116; \<open>safed\<close>
  is the value of \<open>Mission.ThrottleSafed()\<close>.
\<close>

fun state_calls :: "env \<Rightarrow> bool \<Rightarrow> State \<Rightarrow> Call list" where
  "state_calls e safed SyncDataCollection =
     [Mission_ClearImuDataReady, Sensors_ReadSyncSensors, SocComms_SendSensorData (DataBuffer e)]"
| "state_calls e safed AsyncDataCollection = [Sensors_ReadAsyncSensors]"
| "state_calls e safed FlightControl =
     Mission_ClearFlightControlFlag # map Control_Run [0..<ActiveControlLevels e]
       @ [Effectors_ComputeOutputs safed]"
| "state_calls e safed EffectorOutput =
     [Mission_ClearEffectorOutputFlag, Effectors_CommandEffectors]"

text \<open>
  The calls of the three places where the loop polls the mailbox, as functions of the
  mailbox each finds (and, for the effector commands, of the two switches of Mission).
\<close>

definition effector_calls :: "AircraftSocComms \<Rightarrow> bool \<Rightarrow> bool \<Rightarrow> Call list" where
  "effector_calls c use safed =
     SocComms_ReceiveEffectorCommand #
       (case fst (ReceiveEffectorCommand c) of
          None \<Rightarrow> []
        | Some cmds \<Rightarrow> if use then [Effectors_SetCommands cmds safed] else [])"

definition config_calls :: "AircraftSocComms \<Rightarrow> Call list" where
  "config_calls c =
     SocComms_ReceiveConfigMessage #
       (case fst (ReceiveConfigMessage c) of
          None \<Rightarrow> []
        | Some ConfigBuffer \<Rightarrow> [Config_Update ConfigBuffer])"

definition mode_calls :: "(byte \<Rightarrow> Mode option) \<Rightarrow> AircraftSocComms \<Rightarrow> Call list" where
  "mode_calls mode_of_byte c =
     SocComms_ReceiveModeCommand #
       (case fst (ReceiveModeCommand mode_of_byte c) of
          None \<Rightarrow> []
        | Some mode \<Rightarrow> [Mission_SetRequestedMode mode])"

text \<open>
  The mailbox \<open>ReceiveModeCommand\<close> finds at line 134: what the poll of the branch the
  iteration took has left of the mailbox the iteration started with.
\<close>

definition mailbox_after_blocks :: "fmu \<Rightarrow> AircraftSocComms" where
  "mailbox_after_blocks s =
     (if mission_RequestedMode (Mission s) = Run then snd (ReceiveEffectorCommand (SocComms s))
      else if mission_RequestedMode (Mission s) = Mode.Configuration
      then snd (ReceiveConfigMessage (SocComms s))
      else SocComms s)"


text \<open>
  The calls by kind: those of the evaluation of the states (lines 87 to 116), those of
  the polls of the mailbox and what they hand on (lines 118 to 136), and those of the
  two one-shot handlers.
\<close>

fun is_state_call :: "Call \<Rightarrow> bool" where
  "is_state_call Mission_UpdateState = True"
| "is_state_call Mission_ClearImuDataReady = True"
| "is_state_call Sensors_ReadSyncSensors = True"
| "is_state_call (SocComms_SendSensorData b) = True"
| "is_state_call Sensors_ReadAsyncSensors = True"
| "is_state_call Mission_ClearFlightControlFlag = True"
| "is_state_call (Control_Run i) = True"
| "is_state_call (Effectors_ComputeOutputs t) = True"
| "is_state_call Mission_ClearEffectorOutputFlag = True"
| "is_state_call Effectors_CommandEffectors = True"
| "is_state_call _ = False"

fun is_receive_call :: "Call \<Rightarrow> bool" where
  "is_receive_call SocComms_ReceiveEffectorCommand = True"
| "is_receive_call (Effectors_SetCommands cmds t) = True"
| "is_receive_call SocComms_ReceiveConfigMessage = True"
| "is_receive_call (Config_Update b) = True"
| "is_receive_call SocComms_ReceiveModeCommand = True"
| "is_receive_call (Mission_SetRequestedMode m) = True"
| "is_receive_call _ = False"



text \<open>
  Inputs for the examples: a mailbox with nothing pending, a Mission in which \<open>Run\<close> is
  staged and all three flags are set, the loop state built from them, and the
  answers of the collaborators for one iteration (the state is set per example).
\<close>

definition example_SocComms :: AircraftSocComms where
  "example_SocComms =
     \<lparr>bus = [], MessageReceived = False, ReceivedMessage = ModeCommand, ReceivedPayload = []\<rparr>"

definition example_Mission :: AircraftMission where
  "example_Mission =
     \<lparr>mission_Mode = Mode.Configuration, mission_State = SyncDataCollection,
      mission_RequestedMode = Run, ImuDataReady = True, FlightControlFlag = True,
      EffectorOutputFlag = True, UseSocEffectorComands = True, ThrottleSafed = False\<rparr>"

definition example_fmu :: fmu where
  "example_fmu =
     \<lparr>SocComms = example_SocComms, Mission = example_Mission,
      MissionMode = Mode.Configuration, MissionState = SyncDataCollection,
      RequestedMode = Mode.Configuration, EffectorCommands = [], calls = []\<rparr>"

definition example_env :: "State \<Rightarrow> env" where
  "example_env chosen =
     \<lparr>chosen_State = chosen, DataBuffer = [1, 2], ActiveControlLevels = 2, delivered = None\<rparr>"

text \<open>The example loop state with a mode staged and a message pending in the mailbox.\<close>

definition example_pending :: "Mode \<Rightarrow> Message \<Rightarrow> byte list \<Rightarrow> fmu" where
  "example_pending mode kind Payload =
     example_fmu
       \<lparr>SocComms := \<lparr>bus = [], MessageReceived = True, ReceivedMessage = kind,
                     ReceivedPayload = Payload\<rparr>,
        Mission := (Mission example_fmu)\<lparr>mission_RequestedMode := mode\<rparr>\<rparr>"


section \<open>Theorems: route manager\<close>

lemma build_returns_true: "fst (build ops Config m) = True"
  by (simp add: build_def Let_def)

text \<open>
  C9. \<open>FGRouteMgr::build\<close> returns true for every configuration, so \<open>init\<close> never takes
  the branch that prints the inconsistency message and calls \<open>exit(-1)\<close>: it always
  returns a route manager.
\<close>

theorem build_never_fails:
  "fst (build ops Config m) = True \<and> (\<forall>e. init ops Config m \<noteq> Inl e)"
proof -
  have "init ops Config m \<noteq> Inl e" for e
    by (simp add: init_def build_def Let_def)
  then show ?thesis
    by (simp add: build_returns_true)
qed

theorem build_never_fails_witness:
  "fst (build list_route_ops \<lparr>waypoints = Some [7, 8 :: nat]\<rparr>
          \<lparr>active = \<lparr>route = [1], current_wp = 0\<rparr>, standby = \<lparr>route = [2, 3], current_wp = 1\<rparr>,
           pos_set = True, start_mode = FIRST_WPT, completion_mode = LOOP\<rparr>) = True
   \<and> init list_route_ops \<lparr>waypoints = Some [7, 8 :: nat]\<rparr>
          \<lparr>active = \<lparr>route = [1], current_wp = 0\<rparr>, standby = \<lparr>route = [2, 3], current_wp = 1\<rparr>,
           pos_set = True, start_mode = FIRST_WPT, completion_mode = LOOP\<rparr>
       = Inr \<lparr>active = \<lparr>route = [7, 8], current_wp = 0\<rparr>, standby = \<lparr>route = [], current_wp = 0\<rparr>,
           pos_set = False, start_mode = FIRST_WPT, completion_mode = LOOP\<rparr>"
  using build_never_fails [of list_route_ops "\<lparr>waypoints = Some [7, 8 :: nat]\<rparr>"
      "\<lparr>active = \<lparr>route = [1], current_wp = 0\<rparr>, standby = \<lparr>route = [2, 3], current_wp = 1\<rparr>,
        pos_set = True, start_mode = FIRST_WPT, completion_mode = LOOP\<rparr>"]
  by (simp add: init_def build_def swap_def list_route_ops_def Let_def)

text \<open>
  C10. \<open>FGRouteMgr::swap\<close> is atomic on failure. With an empty standby route it returns
  false and changes nothing (active route, standby route, the current waypoint index
  they hold, \<open>pos_set\<close>). Otherwise it returns true, the standby route becomes the active
  one with \<open>set_current(0)\<close> applied to it, the former active route becomes the standby
  one, and \<open>pos_set\<close> is cleared; nothing else changes.
\<close>

theorem swap_atomic:
  "(size_route ops (standby m) = 0 \<longrightarrow> swap ops m = (False, m)) \<and>
   (size_route ops (standby m) \<noteq> 0 \<longrightarrow>
      swap ops m =
        (True, m\<lparr>active := set_current ops 0 (standby m), standby := active m, pos_set := False\<rparr>))"
  by (simp add: swap_def Let_def)

theorem swap_atomic_witness:
  "size_route list_route_ops \<lparr>route = ([] :: nat list), current_wp = 4\<rparr> = 0
   \<and> swap list_route_ops
        \<lparr>active = \<lparr>route = [1 :: nat, 2, 3], current_wp = 2\<rparr>, standby = \<lparr>route = [], current_wp = 4\<rparr>,
         pos_set = True, start_mode = FIRST_LEG, completion_mode = LOOP\<rparr>
       = (False,
        \<lparr>active = \<lparr>route = [1, 2, 3], current_wp = 2\<rparr>, standby = \<lparr>route = [], current_wp = 4\<rparr>,
         pos_set = True, start_mode = FIRST_LEG, completion_mode = LOOP\<rparr>)
   \<and> size_route list_route_ops \<lparr>route = [5 :: nat, 6], current_wp = 1\<rparr> \<noteq> 0
   \<and> swap list_route_ops
        \<lparr>active = \<lparr>route = [1 :: nat, 2, 3], current_wp = 2\<rparr>, standby = \<lparr>route = [5, 6], current_wp = 1\<rparr>,
         pos_set = True, start_mode = FIRST_LEG, completion_mode = LOOP\<rparr>
       = (True,
        \<lparr>active = \<lparr>route = [5, 6], current_wp = 0\<rparr>, standby = \<lparr>route = [1, 2, 3], current_wp = 2\<rparr>,
         pos_set = False, start_mode = FIRST_LEG, completion_mode = LOOP\<rparr>)"
  using
    swap_atomic [of list_route_ops
      "\<lparr>active = \<lparr>route = [1 :: nat, 2, 3], current_wp = 2\<rparr>, standby = \<lparr>route = [], current_wp = 4\<rparr>,
        pos_set = True, start_mode = FIRST_LEG, completion_mode = LOOP\<rparr>"]
    swap_atomic [of list_route_ops
      "\<lparr>active = \<lparr>route = [1 :: nat, 2, 3], current_wp = 2\<rparr>, standby = \<lparr>route = [5, 6], current_wp = 1\<rparr>,
        pos_set = True, start_mode = FIRST_LEG, completion_mode = LOOP\<rparr>"]
  by (simp add: list_route_ops_def)


section \<open>Theorems: mailbox\<close>

lemma Message_of_byte_inverse: "Message_of_byte (byte_of_Message k) = Some k"
  by (cases k) (simp_all add: Message_of_byte_def)

lemma ReceiveMessage_frame_of: "ReceiveMessage (Some (frame_of k p)) = Some (k, p)"
  by (simp add: ReceiveMessage_def frame_of_def Message_of_byte_inverse)

lemma CheckMessages_frame_of:
  "CheckMessages (Some (frame_of k p)) c =
     c\<lparr>MessageReceived := True, ReceivedMessage := k, ReceivedPayload := p\<rparr>"
  by (simp add: CheckMessages_def ReceiveMessage_frame_of)

lemma tryReceive_payload: "ReceivedPayload (snd (tryReceive k c)) = ReceivedPayload c"
  by (simp add: tryReceive_def)

lemma tryReceive_result:
  "fst (tryReceive k c) = None \<or> fst (tryReceive k c) = Some (ReceivedPayload c)"
  by (simp add: tryReceive_def)

lemma tryReceive_all_results:
  "set (tryReceive_all kinds c) \<subseteq> {None, Some (ReceivedPayload c)}"
proof (induction kinds arbitrary: c)
  case Nil
  show ?case by simp
next
  case (Cons k kinds)
  have "set (tryReceive_all kinds (snd (tryReceive k c))) \<subseteq> {None, Some (ReceivedPayload c)}"
    using Cons.IH [of "snd (tryReceive k c)"] by (simp add: tryReceive_payload)
  moreover have "fst (tryReceive k c) \<in> {None, Some (ReceivedPayload c)}"
    using tryReceive_result [of k c] by auto
  ultimately show ?case by simp
qed

text \<open>
  C2. The mailbox is a single slot. Two frames as \<open>send\<close> writes them arrive, the
  first of kind \<open>kind1\<close> and the second of kind \<open>kind2\<close>, each followed by one \<open>pump\<close>
  and with no \<open>tryReceive\<close> between them. Whatever the kinds, the slot then holds the second frame's kind and
  payload and nothing of the first; a \<open>tryReceive\<close> returns the second payload for the
  second kind and nothing for any other; and in any run of \<open>tryReceive\<close> calls every
  result is absent or the second payload.
\<close>

theorem single_slot_overwrite:
  "CheckMessages (Some (frame_of kind2 payload2)) (CheckMessages (Some (frame_of kind1 payload1)) c)
     = c\<lparr>MessageReceived := True, ReceivedMessage := kind2, ReceivedPayload := payload2\<rparr>
   \<and> (\<forall>expectedKind.
        fst (tryReceive expectedKind
              (CheckMessages (Some (frame_of kind2 payload2))
                 (CheckMessages (Some (frame_of kind1 payload1)) c)))
          = (if expectedKind = kind2 then Some payload2 else None))
   \<and> (\<forall>kinds.
        set (tryReceive_all kinds
              (CheckMessages (Some (frame_of kind2 payload2))
                 (CheckMessages (Some (frame_of kind1 payload1)) c)))
          \<subseteq> {None, Some payload2})"
proof -
  let ?c2 = "CheckMessages (Some (frame_of kind2 payload2))
               (CheckMessages (Some (frame_of kind1 payload1)) c)"
  have stored:
    "?c2 = c\<lparr>MessageReceived := True, ReceivedMessage := kind2, ReceivedPayload := payload2\<rparr>"
    by (simp add: CheckMessages_frame_of)
  have one: "fst (tryReceive k ?c2) = (if k = kind2 then Some payload2 else None)" for k
    by (simp add: stored tryReceive_def)
  have "ReceivedPayload ?c2 = payload2"
    by (simp add: stored)
  then have many: "set (tryReceive_all kinds ?c2) \<subseteq> {None, Some payload2}" for kinds
    using tryReceive_all_results [of kinds ?c2] by simp
  show ?thesis
    using stored one many by blast
qed

theorem single_slot_overwrite_witness:
  "CheckMessages (Some (frame_of EffectorCommand [1, 2, 3, 4]))
     (CheckMessages (Some (frame_of ModeCommand [1])) example_SocComms)
     = \<lparr>bus = [], MessageReceived = True, ReceivedMessage = EffectorCommand,
        ReceivedPayload = [1, 2, 3, 4]\<rparr>
   \<and> tryReceive_all [ModeCommand, EffectorCommand, EffectorCommand]
        (CheckMessages (Some (frame_of EffectorCommand [1, 2, 3, 4]))
           (CheckMessages (Some (frame_of ModeCommand [1])) example_SocComms))
     = [None, Some [1, 2, 3, 4], None]"
  using single_slot_overwrite [of EffectorCommand "[1, 2, 3, 4]" ModeCommand "[1]" example_SocComms]
  by (simp add: example_SocComms_def tryReceive_def)

text \<open>
  C5. With a message of kind \<open>K\<close> pending, \<open>tryReceive\<close> for any other kind reports
  absent and leaves the mailbox (so the pending flag, the stored kind and the stored
  payload) as it was; a \<open>tryReceive\<close> for \<open>K\<close> right after it returns the payload and
  clears the pending flag.
\<close>

theorem kind_selective_drain:
  assumes "MessageReceived c" and "ReceivedMessage c = K" and "expectedKind \<noteq> K"
  shows "tryReceive expectedKind c = (None, c)
     \<and> tryReceive K (snd (tryReceive expectedKind c))
         = (Some (ReceivedPayload c), c\<lparr>MessageReceived := False\<rparr>)"
  using assms by (simp add: tryReceive_def)

theorem kind_selective_drain_witness:
  "tryReceive ModeCommand
     \<lparr>bus = [], MessageReceived = True, ReceivedMessage = Message.Configuration,
      ReceivedPayload = [7, 8]\<rparr>
     = (None, \<lparr>bus = [], MessageReceived = True, ReceivedMessage = Message.Configuration,
          ReceivedPayload = [7, 8]\<rparr>)
   \<and> tryReceive Message.Configuration
       (snd (tryReceive ModeCommand
          \<lparr>bus = [], MessageReceived = True, ReceivedMessage = Message.Configuration,
           ReceivedPayload = [7, 8]\<rparr>))
     = (Some [7, 8], \<lparr>bus = [], MessageReceived = False, ReceivedMessage = Message.Configuration,
          ReceivedPayload = [7, 8]\<rparr>)"
  using kind_selective_drain [of
      "\<lparr>bus = [], MessageReceived = True, ReceivedMessage = Message.Configuration,
        ReceivedPayload = [7, 8]\<rparr>" Message.Configuration ModeCommand]
  by (simp add: tryReceive_def)

text \<open>
  C7. Round trip. \<open>SendMessage kind Payload\<close> on the peer writes one frame; delivered to
  this side's \<open>pump\<close> it decodes to the same kind and payload, and \<open>tryReceive kind\<close>
  returns the payload byte for byte. This holds for a payload of any length, so for the
  lengths 0 and 1 and for the longest the link supports.
\<close>

theorem send_receive_round_trip:
  "last (bus (SendMessage kind Payload peer)) = frame_of kind Payload
   \<and> ReceiveMessage (Some (frame_of kind Payload)) = Some (kind, Payload)
   \<and> fst (tryReceive kind (CheckMessages (Some (last (bus (SendMessage kind Payload peer)))) c))
       = Some Payload"
  by (simp add: SendMessage_def ReceiveMessage_frame_of CheckMessages_frame_of tryReceive_def)

theorem send_receive_round_trip_witness:
  "fst (tryReceive SensorData
      (CheckMessages (Some (last (bus (SendMessage SensorData [] example_SocComms))))
         example_SocComms)) = Some []
   \<and> fst (tryReceive ModeCommand
      (CheckMessages (Some (last (bus (SendMessage ModeCommand [1] example_SocComms))))
         example_SocComms)) = Some [1]
   \<and> fst (tryReceive EffectorCommand
      (CheckMessages (Some (last (bus (SendMessage EffectorCommand (replicate 255 9) example_SocComms))))
         example_SocComms)) = Some (replicate 255 9)"
  by (intro conjI send_receive_round_trip [THEN conjunct2, THEN conjunct2])


section \<open>Theorems: the control loop\<close>

subsection \<open>The blocks of the loop body in closed form\<close>

lemma control_loop_eq:
  "control_loop i n s = s\<lparr>calls := calls s @ map Control_Run [i..<n]\<rparr>"
proof (induction i n s rule: control_loop.induct)
  case (1 i n s)
  show ?case
  proof (cases "i < n")
    case True
    have "control_loop i n s = control_loop (Suc i) n (call (Control_Run i) s)"
      using True by (subst control_loop.simps) simp
    also have "\<dots> = s\<lparr>calls := calls s @ map Control_Run [i..<n]\<rparr>"
      using "1.IH" [OF True] True by (simp add: call_def upt_conv_Cons)
    finally show ?thesis .
  next
    case False
    then show ?thesis by (subst control_loop.simps) simp
  qed
qed

lemma SyncDataCollection_block_eq:
  "SyncDataCollection_block e s =
     s\<lparr>Mission := (Mission s)\<lparr>ImuDataReady := False\<rparr>,
       SocComms := (SocComms s)\<lparr>bus := bus (SocComms s) @ [frame_of SensorData (DataBuffer e)]\<rparr>,
       calls := calls s @ state_calls e (ThrottleSafed (Mission s)) SyncDataCollection\<rparr>"
  by (simp add: SyncDataCollection_block_def call_def ClearImuDataReady_def SendSensorData_def
      SendMessage_def Let_def)

lemma FlightControl_block_eq:
  "FlightControl_block e s =
     s\<lparr>Mission := (Mission s)\<lparr>FlightControlFlag := False\<rparr>,
       calls := calls s @ state_calls e (ThrottleSafed (Mission s)) FlightControl\<rparr>"
  by (simp add: FlightControl_block_def call_def ClearFlightControlFlag_def control_loop_eq Let_def)

lemma EffectorOutput_block_eq:
  "EffectorOutput_block s =
     s\<lparr>Mission := (Mission s)\<lparr>EffectorOutputFlag := False\<rparr>,
       calls := calls s @ state_calls e (ThrottleSafed (Mission s)) EffectorOutput\<rparr>"
  by (simp add: EffectorOutput_block_def call_def ClearEffectorOutputFlag_def Let_def)

lemmas state_block_eqs =
  SyncDataCollection_block_eq FlightControl_block_eq EffectorOutput_block_eq

text \<open>A typed accessor reads and writes the slot only: the frames on the bus do not matter.\<close>

lemma typed_receive_slot_cong:
  "slot c = slot c' \<Longrightarrow>
     fst (typed_receive k d c) = fst (typed_receive k d c')
     \<and> slot (snd (typed_receive k d c)) = slot (snd (typed_receive k d c'))"
  by (auto simp: slot_def typed_receive_def tryReceive_def split: option.splits)

lemma CheckMessages_slot_cong:
  "slot c = slot c' \<Longrightarrow> slot (CheckMessages rx c) = slot (CheckMessages rx c')"
  by (auto simp: slot_def CheckMessages_def split: option.splits)

lemma mode_calls_slot_cong: "slot c = slot c' \<Longrightarrow> mode_calls dec c = mode_calls dec c'"
  using typed_receive_slot_cong [of c c' ModeCommand "decode_ModeCommand dec"]
  by (simp add: mode_calls_def ReceiveModeCommand_def)

lemma effector_calls_bus:
  "effector_calls (c\<lparr>bus := b\<rparr>) use safed = effector_calls c use safed"
  by (simp add: effector_calls_def ReceiveEffectorCommand_def typed_receive_def tryReceive_def
      split: option.splits)

lemma EffectorCommand_block_calls:
  "calls (EffectorCommand_block s) =
     calls s @ effector_calls (SocComms s) (UseSocEffectorComands (Mission s))
       (ThrottleSafed (Mission s))"
  by (simp add: EffectorCommand_block_def effector_calls_def call_def Let_def
      split: prod.splits option.splits)

lemma EffectorCommand_block_fields:
  "Mission (EffectorCommand_block s) = Mission s"
  "MissionMode (EffectorCommand_block s) = MissionMode s"
  "SocComms (EffectorCommand_block s) = snd (ReceiveEffectorCommand (SocComms s))"
  by (simp_all add: EffectorCommand_block_def call_def Let_def split: prod.splits option.splits)

lemma Run_block_calls:
  "calls (Run_block e s) =
     calls s @ Mission_UpdateState # state_calls e (ThrottleSafed (Mission s)) (chosen_State e)
       @ effector_calls (SocComms s) (UseSocEffectorComands (Mission s)) (ThrottleSafed (Mission s))"
  by (cases "chosen_State e")
    (simp_all add: Run_block_def EffectorCommand_block_calls effector_calls_bus
      state_block_eqs [where e = e] call_def UpdateState_def GetState_def Let_def)

lemma Run_block_Mission:
  "Mission (Run_block e s) =
     (case chosen_State e of
        SyncDataCollection \<Rightarrow>
          (Mission s)\<lparr>mission_State := SyncDataCollection, ImuDataReady := False\<rparr>
      | AsyncDataCollection \<Rightarrow> (Mission s)\<lparr>mission_State := AsyncDataCollection\<rparr>
      | FlightControl \<Rightarrow>
          (Mission s)\<lparr>mission_State := FlightControl, FlightControlFlag := False\<rparr>
      | EffectorOutput \<Rightarrow>
          (Mission s)\<lparr>mission_State := EffectorOutput, EffectorOutputFlag := False\<rparr>)"
  by (cases "chosen_State e")
    (simp_all add: Run_block_def EffectorCommand_block_fields
      state_block_eqs [where e = e] call_def UpdateState_def GetState_def Let_def)

lemma Run_block_MissionMode: "MissionMode (Run_block e s) = MissionMode s"
  by (cases "chosen_State e")
    (simp_all add: Run_block_def EffectorCommand_block_fields
      state_block_eqs [where e = e] call_def UpdateState_def GetState_def Let_def)

lemma Run_block_slot:
  "slot (SocComms (Run_block e s)) = slot (snd (ReceiveEffectorCommand (SocComms s)))"
proof -
  have "slot (snd (ReceiveEffectorCommand (c\<lparr>bus := b\<rparr>))) = slot (snd (ReceiveEffectorCommand c))"
    for c b
    using typed_receive_slot_cong [of "c\<lparr>bus := b\<rparr>" c EffectorCommand decode_EffectorCommand]
    by (simp add: ReceiveEffectorCommand_def slot_def)
  then show ?thesis
    by (cases "chosen_State e")
      (simp_all add: Run_block_def EffectorCommand_block_fields
        state_block_eqs [where e = e] call_def UpdateState_def GetState_def Let_def)
qed

lemma Configuration_block_calls:
  "calls (Configuration_block s) = calls s @ config_calls (SocComms s)"
  by (simp add: Configuration_block_def config_calls_def call_def Let_def
      split: prod.splits option.splits)

lemma Configuration_block_fields:
  "Mission (Configuration_block s) = Mission s"
  "MissionMode (Configuration_block s) = MissionMode s"
  "SocComms (Configuration_block s) = snd (ReceiveConfigMessage (SocComms s))"
  by (simp_all add: Configuration_block_def call_def Let_def split: prod.splits option.splits)

lemma ModeCommand_block_calls:
  "calls (ModeCommand_block dec s) = calls s @ mode_calls dec (SocComms s)"
  by (simp add: ModeCommand_block_def mode_calls_def call_def Let_def
      split: prod.splits option.splits)

lemma ModeCommand_block_fields:
  "MissionMode (ModeCommand_block dec s) = MissionMode s"
  "SocComms (ModeCommand_block dec s) = snd (ReceiveModeCommand dec (SocComms s))"
  by (simp_all add: ModeCommand_block_def call_def Let_def split: prod.splits option.splits)

lemma ModeCommand_block_Mission:
  "Mission (ModeCommand_block dec s) =
     (case fst (ReceiveModeCommand dec (SocComms s)) of
        None \<Rightarrow> Mission s
      | Some mode \<Rightarrow> (Mission s)\<lparr>mission_RequestedMode := mode\<rparr>)"
  by (simp add: ModeCommand_block_def call_def SetRequestedMode_def Let_def
      split: prod.splits option.splits)

subsection \<open>One iteration\<close>

text \<open>
  The mode an iteration runs in is the one \<open>UpdateMode\<close> has just applied: the mode staged
  when the iteration starts. \<open>MissionMode\<close> holds it from line 84 to the end of the
  iteration.
\<close>

lemma MissionMode_loop_iter:
  "MissionMode (loop_iter dec e s) = mission_RequestedMode (Mission s)"
  by (simp add: loop_iter_def call_def UpdateMode_def GetMode_def Let_def
      Run_block_MissionMode Configuration_block_fields ModeCommand_block_fields)

text \<open>
  The state after the two mode branches, where \<open>ReceiveModeCommand\<close> is called: the rest
  of the iteration in terms of it.
\<close>

lemma loop_iter_after_blocks:
  "\<exists>s3. loop_iter dec e s =
      call SocComms_CheckMessages
        ((ModeCommand_block dec s3)
           \<lparr>SocComms := CheckMessages (delivered e) (SocComms (ModeCommand_block dec s3))\<rparr>)
    \<and> slot (SocComms s3) = slot (mailbox_after_blocks s)
    \<and> mission_RequestedMode (Mission s3) = mission_RequestedMode (Mission s)
    \<and> calls s3 =
        calls s @ Mission_UpdateMode #
          (if mission_RequestedMode (Mission s) = Run
           then Mission_UpdateState # state_calls e (ThrottleSafed (Mission s)) (chosen_State e)
             @ effector_calls (SocComms s) (UseSocEffectorComands (Mission s))
                 (ThrottleSafed (Mission s))
           else [])
          @ (if mission_RequestedMode (Mission s) = Mode.Configuration
             then config_calls (SocComms s) else [])"
proof -
  define s1 where
    "s1 = (call Mission_UpdateMode (s\<lparr>Mission := UpdateMode (Mission s)\<rparr>))
            \<lparr>MissionMode := mission_RequestedMode (Mission s)\<rparr>"
  have s1: "calls s1 = calls s @ [Mission_UpdateMode]" "SocComms s1 = SocComms s"
    "MissionMode s1 = mission_RequestedMode (Mission s)"
    "mission_RequestedMode (Mission s1) = mission_RequestedMode (Mission s)"
    "ThrottleSafed (Mission s1) = ThrottleSafed (Mission s)"
    "UseSocEffectorComands (Mission s1) = UseSocEffectorComands (Mission s)"
    by (simp_all add: s1_def call_def UpdateMode_def)
  define s2 where "s2 = (if MissionMode s1 = Run then Run_block e s1 else s1)"
  define s3 where
    "s3 = (if MissionMode s2 = Mode.Configuration then Configuration_block s2 else s2)"
  have unfold: "loop_iter dec e s =
      call SocComms_CheckMessages
        ((ModeCommand_block dec s3)
           \<lparr>SocComms := CheckMessages (delivered e) (SocComms (ModeCommand_block dec s3))\<rparr>)"
    by (simp add: loop_iter_def s1_def s2_def s3_def Let_def GetMode_def UpdateMode_def call_def)
  have m2: "MissionMode s2 = mission_RequestedMode (Mission s)"
    by (simp add: s2_def s1 Run_block_MissionMode)
  have c2: "calls s2 = calls s @ Mission_UpdateMode #
       (if mission_RequestedMode (Mission s) = Run
        then Mission_UpdateState # state_calls e (ThrottleSafed (Mission s)) (chosen_State e)
          @ effector_calls (SocComms s) (UseSocEffectorComands (Mission s))
              (ThrottleSafed (Mission s))
        else [])"
    by (simp add: s2_def s1 Run_block_calls)
  have slot2: "slot (SocComms s2) =
      slot (if mission_RequestedMode (Mission s) = Run
            then snd (ReceiveEffectorCommand (SocComms s)) else SocComms s)"
    by (simp add: s2_def s1 Run_block_slot)
  have r2: "mission_RequestedMode (Mission s2) = mission_RequestedMode (Mission s)"
    by (cases "chosen_State e") (simp_all add: s2_def s1 Run_block_Mission)
  have s2_other: "s2 = s1" if "mission_RequestedMode (Mission s) \<noteq> Run"
    using that by (simp add: s2_def s1)
  have s3_other: "s3 = s2" if "mission_RequestedMode (Mission s) \<noteq> Mode.Configuration"
    using that by (simp add: s3_def m2)
  have c3: "calls s3 = calls s2 @
       (if mission_RequestedMode (Mission s) = Mode.Configuration
        then config_calls (SocComms s) else [])"
  proof (cases "mission_RequestedMode (Mission s) = Mode.Configuration")
    case True
    then have "s2 = s1" by (simp add: s2_other)
    then show ?thesis
      using True by (simp add: s3_def m2 Configuration_block_calls s1)
  next
    case False
    then show ?thesis by (simp add: s3_other)
  qed
  have slot3: "slot (SocComms s3) = slot (mailbox_after_blocks s)"
  proof (cases "mission_RequestedMode (Mission s) = Mode.Configuration")
    case True
    then have "s2 = s1" by (simp add: s2_other)
    then show ?thesis
      using True by (simp add: s3_def m2 Configuration_block_fields s1 mailbox_after_blocks_def)
  next
    case False
    then show ?thesis
      using slot2 by (simp add: s3_other mailbox_after_blocks_def)
  qed
  have r3: "mission_RequestedMode (Mission s3) = mission_RequestedMode (Mission s)"
    by (simp add: s3_def r2 Configuration_block_fields)
  show ?thesis
    using unfold slot3 r3 c3 c2 by (intro exI [of _ s3]) simp
qed

text \<open>The calls of one iteration, in order.\<close>

lemma iter_calls_eq:
  "iter_calls dec e s =
     Mission_UpdateMode #
       (if mission_RequestedMode (Mission s) = Run
        then Mission_UpdateState # state_calls e (ThrottleSafed (Mission s)) (chosen_State e)
        else [])
       @ ((if mission_RequestedMode (Mission s) = Run
           then effector_calls (SocComms s) (UseSocEffectorComands (Mission s))
                  (ThrottleSafed (Mission s))
           else [])
          @ (if mission_RequestedMode (Mission s) = Mode.Configuration
             then config_calls (SocComms s) else [])
          @ mode_calls dec (mailbox_after_blocks s))
       @ [SocComms_CheckMessages]"
proof -
  let ?s = "s\<lparr>calls := []\<rparr>"
  obtain s3 where s3:
    "loop_iter dec e ?s =
      call SocComms_CheckMessages
        ((ModeCommand_block dec s3)
           \<lparr>SocComms := CheckMessages (delivered e) (SocComms (ModeCommand_block dec s3))\<rparr>)"
    "slot (SocComms s3) = slot (mailbox_after_blocks ?s)"
    "calls s3 =
        calls ?s @ Mission_UpdateMode #
          (if mission_RequestedMode (Mission ?s) = Run
           then Mission_UpdateState # state_calls e (ThrottleSafed (Mission ?s)) (chosen_State e)
             @ effector_calls (SocComms ?s) (UseSocEffectorComands (Mission ?s))
                 (ThrottleSafed (Mission ?s))
           else [])
          @ (if mission_RequestedMode (Mission ?s) = Mode.Configuration
             then config_calls (SocComms ?s) else [])"
    using loop_iter_after_blocks [of dec e ?s] by blast
  have same: "mailbox_after_blocks ?s = mailbox_after_blocks s"
    by (simp add: mailbox_after_blocks_def)
  have "iter_calls dec e s = calls s3 @ mode_calls dec (SocComms s3) @ [SocComms_CheckMessages]"
    by (simp add: iter_calls_def s3(1) call_def ModeCommand_block_calls)
  also have "mode_calls dec (SocComms s3) = mode_calls dec (mailbox_after_blocks s)"
    by (rule mode_calls_slot_cong) (simp add: s3(2) same)
  finally show ?thesis
    by (simp add: s3(3))
qed

text \<open>
  The interrupt sets \<open>ImuDataReady\<close> only, and the loop body reads that flag nowhere
  (\<open>Mission.UpdateState\<close> does): the calls of an iteration are the same after it.
\<close>

lemma ImuInterrupt_iter_calls: "iter_calls dec e (ImuInterrupt s) = iter_calls dec e s"
  by (simp add: iter_calls_eq ImuInterrupt_def SetImuDataReady_def mailbox_after_blocks_def)


lemma RequestedMode_loop_iter:
  "mission_RequestedMode (Mission (loop_iter dec e s)) =
     (case fst (ReceiveModeCommand dec (mailbox_after_blocks s)) of
        None \<Rightarrow> mission_RequestedMode (Mission s)
      | Some mode \<Rightarrow> mode)"
proof -
  obtain s3 where s3:
    "loop_iter dec e s =
      call SocComms_CheckMessages
        ((ModeCommand_block dec s3)
           \<lparr>SocComms := CheckMessages (delivered e) (SocComms (ModeCommand_block dec s3))\<rparr>)"
    "slot (SocComms s3) = slot (mailbox_after_blocks s)"
    "mission_RequestedMode (Mission s3) = mission_RequestedMode (Mission s)"
    using loop_iter_after_blocks [of dec e s] by blast
  have "fst (ReceiveModeCommand dec (SocComms s3))
      = fst (ReceiveModeCommand dec (mailbox_after_blocks s))"
    using typed_receive_slot_cong [OF s3(2), where k = ModeCommand and d = "decode_ModeCommand dec"]
    by (simp add: ReceiveModeCommand_def)
  then show ?thesis
    by (simp add: s3(1) s3(3) call_def ModeCommand_block_Mission split: option.splits)
qed

lemma slot_loop_iter:
  "slot (SocComms (loop_iter dec e s)) =
     slot (CheckMessages (delivered e) (snd (ReceiveModeCommand dec (mailbox_after_blocks s))))"
proof -
  obtain s3 where s3:
    "loop_iter dec e s =
      call SocComms_CheckMessages
        ((ModeCommand_block dec s3)
           \<lparr>SocComms := CheckMessages (delivered e) (SocComms (ModeCommand_block dec s3))\<rparr>)"
    "slot (SocComms s3) = slot (mailbox_after_blocks s)"
    using loop_iter_after_blocks [of dec e s] by blast
  have "slot (snd (ReceiveModeCommand dec (SocComms s3)))
      = slot (snd (ReceiveModeCommand dec (mailbox_after_blocks s)))"
    using typed_receive_slot_cong [OF s3(2), where k = ModeCommand and d = "decode_ModeCommand dec"]
    by (simp add: ReceiveModeCommand_def)
  then have "slot (CheckMessages (delivered e) (snd (ReceiveModeCommand dec (SocComms s3))))
      = slot (CheckMessages (delivered e) (snd (ReceiveModeCommand dec (mailbox_after_blocks s))))"
    by (rule CheckMessages_slot_cong)
  then show ?thesis
    by (simp add: s3(1) call_def ModeCommand_block_fields)
qed

subsection \<open>The calls by kind\<close>

lemma state_calls_are_state_calls: "list_all is_state_call (state_calls e t st)"
  by (cases st) (simp_all add: list_all_iff)

lemma effector_calls_receive: "list_all is_receive_call (effector_calls c u t)"
  by (simp add: effector_calls_def split: option.splits)

lemma config_calls_receive: "list_all is_receive_call (config_calls c)"
  by (simp add: config_calls_def split: option.splits)

lemma mode_calls_receive: "list_all is_receive_call (mode_calls dec c)"
  by (simp add: mode_calls_def split: option.splits)

lemma effector_calls_counts:
  "count_list (effector_calls c u t) SocComms_ReceiveModeCommand = 0"
  "count_list (effector_calls c u t) SocComms_ReceiveEffectorCommand = 1"
  "count_list (effector_calls c u t) SocComms_ReceiveConfigMessage = 0"
  by (simp_all add: effector_calls_def split: option.splits)

lemma config_calls_counts:
  "count_list (config_calls c) SocComms_ReceiveModeCommand = 0"
  "count_list (config_calls c) SocComms_ReceiveEffectorCommand = 0"
  "count_list (config_calls c) SocComms_ReceiveConfigMessage = 1"
  by (simp_all add: config_calls_def split: option.splits)

lemma mode_calls_counts:
  "count_list (mode_calls dec c) SocComms_ReceiveModeCommand = 1"
  "count_list (mode_calls dec c) SocComms_ReceiveEffectorCommand = 0"
  "count_list (mode_calls dec c) SocComms_ReceiveConfigMessage = 0"
  by (simp_all add: mode_calls_def split: option.splits)

lemma count_state_calls_async:
  "count_list (state_calls e t st) Sensors_ReadAsyncSensors
     = (if st = AsyncDataCollection then 1 else 0)"
  by (cases st) (simp_all add: count_list_0_iff image_iff)

lemma count_not_receive:
  "list_all is_receive_call cs \<Longrightarrow> \<not> is_receive_call c \<Longrightarrow> count_list cs c = 0"
  by (auto simp: count_list_0_iff list_all_iff)






subsection \<open>The typed accessors and the calls that hand a message on\<close>

lemma typed_receive_miss:
  "\<not> (MessageReceived c \<and> ReceivedMessage c = k) \<Longrightarrow> typed_receive k d c = (None, c)"
  by (auto simp: typed_receive_def)

lemma typed_receive_hit:
  "MessageReceived c \<Longrightarrow> ReceivedMessage c = k \<Longrightarrow> d (ReceivedPayload c) = Some v \<Longrightarrow>
     typed_receive k d c = (Some v, c\<lparr>MessageReceived := False\<rparr>)"
  by (simp add: typed_receive_def tryReceive_def)

lemma typed_receive_Some:
  "fst (typed_receive k d c) = Some v \<Longrightarrow>
     MessageReceived c \<and> ReceivedMessage c = k \<and> d (ReceivedPayload c) = Some v"
  by (auto simp: typed_receive_def split: if_splits option.splits)

lemma typed_receive_bad_shape:
  "d (ReceivedPayload c) = None \<Longrightarrow> typed_receive k d c = (None, c)"
  by (simp add: typed_receive_def)

lemma Config_Update_in_state_calls: "Config_Update buf \<notin> set (state_calls e t st)"
  by (cases st) auto

lemma SetCommands_in_state_calls: "Effectors_SetCommands cmds t' \<notin> set (state_calls e t st)"
  by (cases st) auto

lemma SetRequestedMode_in_mode_calls:
  "(Mission_SetRequestedMode mode \<in> set (mode_calls dec c))
     = (fst (ReceiveModeCommand dec c) = Some mode)"
  by (auto simp: mode_calls_def split: option.splits)

lemma Config_Update_in_config_calls:
  "(Config_Update buf \<in> set (config_calls c)) = (fst (ReceiveConfigMessage c) = Some buf)"
  by (auto simp: config_calls_def split: option.splits)

lemma SetCommands_in_effector_calls:
  "(Effectors_SetCommands cmds t \<in> set (effector_calls c use safed))
     = (fst (ReceiveEffectorCommand c) = Some cmds \<and> use \<and> t = safed)"
  by (auto simp: effector_calls_def split: option.splits)

lemma other_calls_in_parts:
  "Config_Update buf \<notin> set (effector_calls c use safed)"
  "Config_Update buf \<notin> set (mode_calls dec c)"
  "SocComms_ReceiveConfigMessage \<notin> set (effector_calls c use safed)"
  "SocComms_ReceiveConfigMessage \<notin> set (mode_calls dec c)"
  "Effectors_SetCommands cmds t \<notin> set (config_calls c)"
  "Effectors_SetCommands cmds t \<notin> set (mode_calls dec c)"
  by (auto simp: effector_calls_def mode_calls_def config_calls_def split: option.splits)

lemma ReceiveConfigMessage_in_state_calls:
  "SocComms_ReceiveConfigMessage \<notin> set (state_calls e t st)"
  by (cases st) auto

text \<open>Where each of the calls that hand a message on can occur in an iteration.\<close>

lemma Config_Update_in_iter_calls:
  "(Config_Update buf \<in> set (iter_calls dec e s))
     = (mission_RequestedMode (Mission s) = Mode.Configuration
        \<and> fst (ReceiveConfigMessage (SocComms s)) = Some buf)"
  by (simp add: iter_calls_eq Config_Update_in_state_calls other_calls_in_parts
      Config_Update_in_config_calls)

lemma ReceiveConfigMessage_in_iter_calls:
  "(SocComms_ReceiveConfigMessage \<in> set (iter_calls dec e s))
     = (mission_RequestedMode (Mission s) = Mode.Configuration)"
  by (simp add: iter_calls_eq ReceiveConfigMessage_in_state_calls other_calls_in_parts
      config_calls_def)

lemma SetCommands_in_iter_calls:
  "(Effectors_SetCommands cmds t \<in> set (iter_calls dec e s))
     = (mission_RequestedMode (Mission s) = Run
        \<and> fst (ReceiveEffectorCommand (SocComms s)) = Some cmds
        \<and> UseSocEffectorComands (Mission s) \<and> t = ThrottleSafed (Mission s))"
  by (simp add: iter_calls_eq SetCommands_in_state_calls other_calls_in_parts
      SetCommands_in_effector_calls)

lemma SetRequestedMode_in_iter_calls:
  "(Mission_SetRequestedMode mode \<in> set (iter_calls dec e s))
     = (fst (ReceiveModeCommand dec (mailbox_after_blocks s)) = Some mode)"
proof -
  have "Mission_SetRequestedMode mode \<notin> set (state_calls e t st)" for t st
    by (cases st) auto
  moreover have "Mission_SetRequestedMode mode \<notin> set (effector_calls c use safed)" for c use safed
    by (auto simp: effector_calls_def split: option.splits)
  moreover have "Mission_SetRequestedMode mode \<notin> set (config_calls c)" for c
    by (auto simp: config_calls_def split: option.splits)
  ultimately show ?thesis
    by (simp add: iter_calls_eq SetRequestedMode_in_mode_calls)
qed

lemma slot_eq_iff:
  "(slot c = (r, k, p)) = (MessageReceived c = r \<and> ReceivedMessage c = k \<and> ReceivedPayload c = p)"
  by (simp add: slot_def)

text \<open>A pending message of another kind passes the poll of the branch untouched.\<close>

lemma mailbox_after_blocks_other_kind:
  assumes "MessageReceived (SocComms s)"
    and "mission_RequestedMode (Mission s) = Run \<longrightarrow> ReceivedMessage (SocComms s) \<noteq> EffectorCommand"
    and "mission_RequestedMode (Mission s) = Mode.Configuration
           \<longrightarrow> ReceivedMessage (SocComms s) \<noteq> Message.Configuration"
  shows "mailbox_after_blocks s = SocComms s"
  using assms
  by (simp add: mailbox_after_blocks_def ReceiveEffectorCommand_def ReceiveConfigMessage_def
      typed_receive_miss)

lemma floats_of_bytes_exact:
  "length Payload = 4 * n \<Longrightarrow>
     length (floats_of_bytes Payload) = n
     \<and> concat (map bytes_of_float32 (floats_of_bytes Payload)) = Payload"
proof (induction Payload arbitrary: n rule: floats_of_bytes.induct)
  case (1 a b c d rest)
  then obtain k where n: "n = Suc k"
    by (cases n) auto
  with "1.prems" have "length rest = 4 * k"
    by simp
  from "1.IH" [OF this] show ?case
    by (simp add: n)
qed (simp_all, arith+)

subsection \<open>The claims about the loop\<close>

text \<open>
  C8, as the code has it. In every iteration the calls come in this order: first
  \<open>Mission.UpdateMode\<close>; then the evaluation of the states (none unless the mode is
  \<open>Run\<close>); then the polls of the mailbox with what they hand on, namely
  \<open>ReceiveEffectorCommand\<close> once in mode \<open>Run\<close> only, \<open>ReceiveConfigMessage\<close> once in mode
  \<open>Configuration\<close> only and \<open>ReceiveModeCommand\<close> once in every mode; and last, exactly
  once, \<open>CheckMessages\<close>. The polls of an iteration come before its pump, not after it.
\<close>

theorem iteration_order:
  "\<exists>st rc.
     iter_calls dec e s = Mission_UpdateMode # st @ rc @ [SocComms_CheckMessages]
     \<and> list_all is_state_call st \<and> list_all is_receive_call rc
     \<and> (st = []) = (MissionMode (loop_iter dec e s) \<noteq> Run)
     \<and> count_list rc SocComms_ReceiveEffectorCommand
         = (if MissionMode (loop_iter dec e s) = Run then 1 else 0)
     \<and> count_list rc SocComms_ReceiveConfigMessage
         = (if MissionMode (loop_iter dec e s) = Mode.Configuration then 1 else 0)
     \<and> count_list rc SocComms_ReceiveModeCommand = 1"
proof -
  let ?m = "mission_RequestedMode (Mission s)"
  let ?st = "if ?m = Run
        then Mission_UpdateState # state_calls e (ThrottleSafed (Mission s)) (chosen_State e)
        else []"
  let ?rc = "(if ?m = Run
          then effector_calls (SocComms s) (UseSocEffectorComands (Mission s)) (ThrottleSafed (Mission s))
          else [])
       @ (if ?m = Mode.Configuration then config_calls (SocComms s) else [])
       @ mode_calls dec (mailbox_after_blocks s)"
  have "iter_calls dec e s = Mission_UpdateMode # ?st @ ?rc @ [SocComms_CheckMessages]"
    by (rule iter_calls_eq)
  moreover have "list_all is_state_call ?st"
    by (simp add: state_calls_are_state_calls)
  moreover have "list_all is_receive_call ?rc"
    by (simp add: effector_calls_receive config_calls_receive mode_calls_receive)
  moreover have "(?st = []) = (MissionMode (loop_iter dec e s) \<noteq> Run)"
    by (simp add: MissionMode_loop_iter)
  moreover have "count_list ?rc SocComms_ReceiveEffectorCommand
         = (if MissionMode (loop_iter dec e s) = Run then 1 else 0)"
    by (simp add: MissionMode_loop_iter effector_calls_counts config_calls_counts mode_calls_counts)
  moreover have "count_list ?rc SocComms_ReceiveConfigMessage
         = (if MissionMode (loop_iter dec e s) = Mode.Configuration then 1 else 0)"
    by (simp add: MissionMode_loop_iter effector_calls_counts config_calls_counts mode_calls_counts)
  moreover have "count_list ?rc SocComms_ReceiveModeCommand = 1"
    by (simp add: effector_calls_counts config_calls_counts mode_calls_counts)
  ultimately show ?thesis
    by blast
qed


theorem iteration_order_witness:
  "\<exists>st rc.
     iter_calls example_mode_of_byte (example_env FlightControl) example_fmu
       = Mission_UpdateMode # st @ rc @ [SocComms_CheckMessages]
     \<and> list_all is_state_call st \<and> list_all is_receive_call rc
     \<and> (st = [])
         = (MissionMode (loop_iter example_mode_of_byte (example_env FlightControl) example_fmu) \<noteq> Run)
     \<and> count_list rc SocComms_ReceiveEffectorCommand
         = (if MissionMode (loop_iter example_mode_of_byte (example_env FlightControl) example_fmu) = Run
            then 1 else 0)
     \<and> count_list rc SocComms_ReceiveConfigMessage
         = (if MissionMode (loop_iter example_mode_of_byte (example_env FlightControl) example_fmu)
              = Mode.Configuration
            then 1 else 0)
     \<and> count_list rc SocComms_ReceiveModeCommand = 1"
  by (rule iteration_order)

text \<open>
  C8 as stated fails. In an iteration in mode \<open>Run\<close> whose state is
  \<open>AsyncDataCollection\<close> the pump is the last call: no \<open>tryReceive\<close> follows it, both
  polls precede it, and the \<open>Configuration\<close> kind is not polled at all.
\<close>

theorem iteration_order_counterexample:
  "iter_calls example_mode_of_byte (example_env AsyncDataCollection) example_fmu =
     [Mission_UpdateMode, Mission_UpdateState, Sensors_ReadAsyncSensors,
      SocComms_ReceiveEffectorCommand, SocComms_ReceiveModeCommand, SocComms_CheckMessages]
   \<and> \<not> before SocComms_CheckMessages SocComms_ReceiveEffectorCommand
         (iter_calls example_mode_of_byte (example_env AsyncDataCollection) example_fmu)
   \<and> \<not> before SocComms_CheckMessages SocComms_ReceiveModeCommand
         (iter_calls example_mode_of_byte (example_env AsyncDataCollection) example_fmu)
   \<and> before SocComms_ReceiveModeCommand SocComms_CheckMessages
         (iter_calls example_mode_of_byte (example_env AsyncDataCollection) example_fmu)
   \<and> SocComms_ReceiveConfigMessage
         \<notin> set (iter_calls example_mode_of_byte (example_env AsyncDataCollection) example_fmu)"
  by code_simp

text \<open>
  C4, as the code has it. In an iteration \<open>Sensors.ReadAsyncSensors\<close> is called once when
  the mode is \<open>Run\<close> and the state of the iteration is \<open>AsyncDataCollection\<close>, and not at
  all otherwise: not in an iteration in which \<open>SyncDataCollection\<close>, \<open>FlightControl\<close> or
  \<open>EffectorOutput\<close> fires.
\<close>

theorem async_read_only_in_its_state:
  "count_list (iter_calls dec e s) Sensors_ReadAsyncSensors =
     (if MissionMode (loop_iter dec e s) = Run \<and> chosen_State e = AsyncDataCollection then 1 else 0)"
  by (simp add: iter_calls_eq MissionMode_loop_iter count_state_calls_async
      count_not_receive [OF effector_calls_receive] count_not_receive [OF config_calls_receive]
      count_not_receive [OF mode_calls_receive])

theorem async_read_only_in_its_state_witness:
  "count_list (iter_calls example_mode_of_byte (example_env AsyncDataCollection) example_fmu)
     Sensors_ReadAsyncSensors = 1
   \<and> count_list (iter_calls example_mode_of_byte (example_env EffectorOutput) example_fmu)
     Sensors_ReadAsyncSensors = 0"
  using async_read_only_in_its_state [of example_mode_of_byte "example_env AsyncDataCollection" example_fmu]
    async_read_only_in_its_state [of example_mode_of_byte "example_env EffectorOutput" example_fmu]
  by (simp add: MissionMode_loop_iter example_fmu_def example_Mission_def example_env_def)

text \<open>
  C4 as stated fails. In an iteration in mode \<open>Run\<close> whose state is
  \<open>SyncDataCollection\<close> the synchronous sensors are read and the asynchronous read is
  not called.
\<close>

theorem async_read_counterexample:
  "MissionMode (loop_iter example_mode_of_byte (example_env SyncDataCollection) example_fmu) = Run
   \<and> iter_calls example_mode_of_byte (example_env SyncDataCollection) example_fmu =
     [Mission_UpdateMode, Mission_UpdateState, Mission_ClearImuDataReady, Sensors_ReadSyncSensors,
      SocComms_SendSensorData [1, 2],
      SocComms_ReceiveEffectorCommand, SocComms_ReceiveModeCommand, SocComms_CheckMessages]
   \<and> count_list (iter_calls example_mode_of_byte (example_env SyncDataCollection) example_fmu)
        Sensors_ReadAsyncSensors = 0"
  by code_simp


lemma calls_loop_iter: "calls (loop_iter dec e s) = calls s @ iter_calls dec e s"
proof -
  obtain s3 where s3:
    "loop_iter dec e s =
      call SocComms_CheckMessages
        ((ModeCommand_block dec s3)
           \<lparr>SocComms := CheckMessages (delivered e) (SocComms (ModeCommand_block dec s3))\<rparr>)"
    "slot (SocComms s3) = slot (mailbox_after_blocks s)"
    "calls s3 =
        calls s @ Mission_UpdateMode #
          (if mission_RequestedMode (Mission s) = Run
           then Mission_UpdateState # state_calls e (ThrottleSafed (Mission s)) (chosen_State e)
             @ effector_calls (SocComms s) (UseSocEffectorComands (Mission s))
                 (ThrottleSafed (Mission s))
           else [])
          @ (if mission_RequestedMode (Mission s) = Mode.Configuration
             then config_calls (SocComms s) else [])"
    using loop_iter_after_blocks [of dec e s] by blast
  have "calls (loop_iter dec e s) = calls s3 @ mode_calls dec (SocComms s3) @ [SocComms_CheckMessages]"
    by (simp add: s3(1) call_def ModeCommand_block_calls)
  also have "mode_calls dec (SocComms s3) = mode_calls dec (mailbox_after_blocks s)"
    by (rule mode_calls_slot_cong) (simp add: s3(2))
  finally show ?thesis
    by (simp add: s3(3) iter_calls_eq)
qed

lemma calls_run_loop: "calls (run_loop dec steps s) = calls s @ run_calls dec steps s"
proof (induction steps arbitrary: s)
  case Nil
  show ?case by simp
next
  case (Cons step steps)
  show ?case
    by (simp add: Cons.IH loop_step_def outside_def calls_loop_iter)
qed













text \<open>
  C3. Mode gating. In an iteration in mode \<open>Run\<close> the loop does not call
  \<open>ReceiveConfigMessage\<close> and passes nothing to \<open>Config.Update\<close>; a pending
  \<open>Configuration\<close> message stays in the slot through the iteration (as long as its pump
  brings no new frame). \<open>Config.Update\<close> is called only in an iteration in mode
  \<open>Configuration\<close>, with the payload of a pending \<open>Configuration\<close> message, and it is
  called whenever such a message is pending in that mode. In every mode a pending
  \<open>ModeCommand\<close> message (one byte that codes a mode) is received and staged through
  \<open>SetRequestedMode\<close>.
\<close>

theorem mode_gating:
  "(MissionMode (loop_iter dec e s) = Run \<longrightarrow>
      SocComms_ReceiveConfigMessage \<notin> set (iter_calls dec e s)
      \<and> (\<forall>ConfigBuffer. Config_Update ConfigBuffer \<notin> set (iter_calls dec e s)))
   \<and> (\<forall>ConfigBuffer. Config_Update ConfigBuffer \<in> set (iter_calls dec e s) \<longrightarrow>
        MissionMode (loop_iter dec e s) = Mode.Configuration
        \<and> slot (SocComms s) = (True, Message.Configuration, ConfigBuffer))
   \<and> (MissionMode (loop_iter dec e s) = Mode.Configuration
        \<and> slot (SocComms s) = (True, Message.Configuration, Payload)
      \<longrightarrow> Config_Update Payload \<in> set (iter_calls dec e s))
   \<and> (MissionMode (loop_iter dec e s) = Run
        \<and> slot (SocComms s) = (True, Message.Configuration, Payload) \<and> delivered e = None
      \<longrightarrow> slot (SocComms (loop_iter dec e s)) = (True, Message.Configuration, Payload))
   \<and> (slot (SocComms s) = (True, ModeCommand, [b]) \<and> dec b = Some mode \<longrightarrow>
        Mission_SetRequestedMode mode \<in> set (iter_calls dec e s)
        \<and> mission_RequestedMode (Mission (loop_iter dec e s)) = mode)"
proof -
  have not_in_Run: "SocComms_ReceiveConfigMessage \<notin> set (iter_calls dec e s)
      \<and> (\<forall>ConfigBuffer. Config_Update ConfigBuffer \<notin> set (iter_calls dec e s))"
    if "MissionMode (loop_iter dec e s) = Run"
    using that
    by (simp add: MissionMode_loop_iter Config_Update_in_iter_calls ReceiveConfigMessage_in_iter_calls)
  have only_in_Configuration: "MissionMode (loop_iter dec e s) = Mode.Configuration
        \<and> slot (SocComms s) = (True, Message.Configuration, ConfigBuffer)"
    if "Config_Update ConfigBuffer \<in> set (iter_calls dec e s)" for ConfigBuffer
  proof -
    from that have m: "mission_RequestedMode (Mission s) = Mode.Configuration"
      and r: "fst (ReceiveConfigMessage (SocComms s)) = Some ConfigBuffer"
      by (simp_all add: Config_Update_in_iter_calls)
    from r have "MessageReceived (SocComms s) \<and> ReceivedMessage (SocComms s) = Message.Configuration
        \<and> Some (ReceivedPayload (SocComms s)) = Some ConfigBuffer"
      unfolding ReceiveConfigMessage_def by (rule typed_receive_Some)
    then show ?thesis
      using m by (simp add: MissionMode_loop_iter slot_eq_iff)
  qed
  have in_Configuration: "Config_Update Payload \<in> set (iter_calls dec e s)"
    if "MissionMode (loop_iter dec e s) = Mode.Configuration"
      and "slot (SocComms s) = (True, Message.Configuration, Payload)"
    using that
    by (simp add: MissionMode_loop_iter Config_Update_in_iter_calls slot_eq_iff
        ReceiveConfigMessage_def typed_receive_hit)
  have kept_in_Run: "slot (SocComms (loop_iter dec e s)) = (True, Message.Configuration, Payload)"
    if "MissionMode (loop_iter dec e s) = Run"
      and pending: "slot (SocComms s) = (True, Message.Configuration, Payload)"
      and "delivered e = None"
  proof -
    have "mailbox_after_blocks s = SocComms s"
      using that by (intro mailbox_after_blocks_other_kind) (simp_all add: MissionMode_loop_iter slot_eq_iff)
    moreover have "ReceiveModeCommand dec (SocComms s) = (None, SocComms s)"
      using pending by (simp add: ReceiveModeCommand_def typed_receive_miss slot_eq_iff)
    ultimately show ?thesis
      using that by (simp add: slot_loop_iter CheckMessages_def ReceiveMessage_def)
  qed
  have staged: "Mission_SetRequestedMode mode \<in> set (iter_calls dec e s)
        \<and> mission_RequestedMode (Mission (loop_iter dec e s)) = mode"
    if pending: "slot (SocComms s) = (True, ModeCommand, [b])" and "dec b = Some mode"
  proof -
    have "mailbox_after_blocks s = SocComms s"
      using pending by (intro mailbox_after_blocks_other_kind) (simp_all add: slot_eq_iff)
    moreover have "ReceiveModeCommand dec (SocComms s)
        = (Some mode, (SocComms s)\<lparr>MessageReceived := False\<rparr>)"
      using that
      by (simp add: ReceiveModeCommand_def typed_receive_hit decode_ModeCommand_def slot_eq_iff)
    ultimately show ?thesis
      by (simp add: SetRequestedMode_in_iter_calls RequestedMode_loop_iter)
  qed
  show ?thesis
    using not_in_Run only_in_Configuration in_Configuration kept_in_Run staged by blast
qed


theorem mode_gating_witness:
  "MissionMode (loop_iter example_mode_of_byte (example_env AsyncDataCollection)
      (example_pending Run Message.Configuration [7, 8])) = Run
   \<and> SocComms_ReceiveConfigMessage
       \<notin> set (iter_calls example_mode_of_byte (example_env AsyncDataCollection)
               (example_pending Run Message.Configuration [7, 8]))
   \<and> Config_Update [7, 8]
       \<notin> set (iter_calls example_mode_of_byte (example_env AsyncDataCollection)
               (example_pending Run Message.Configuration [7, 8]))
   \<and> slot (SocComms (loop_iter example_mode_of_byte (example_env AsyncDataCollection)
              (example_pending Run Message.Configuration [7, 8])))
       = (True, Message.Configuration, [7, 8])
   \<and> MissionMode (loop_iter example_mode_of_byte (example_env AsyncDataCollection)
      (example_pending Mode.Configuration Message.Configuration [7, 8])) = Mode.Configuration
   \<and> Config_Update [7, 8]
       \<in> set (iter_calls example_mode_of_byte (example_env AsyncDataCollection)
               (example_pending Mode.Configuration Message.Configuration [7, 8]))
   \<and> Mission_SetRequestedMode Mode.Configuration
       \<in> set (iter_calls example_mode_of_byte (example_env AsyncDataCollection)
               (example_pending Run ModeCommand [0]))
   \<and> mission_RequestedMode (Mission (loop_iter example_mode_of_byte (example_env AsyncDataCollection)
              (example_pending Run ModeCommand [0]))) = Mode.Configuration
   \<and> Mission_SetRequestedMode Run
       \<in> set (iter_calls example_mode_of_byte (example_env AsyncDataCollection)
               (example_pending Mode.Configuration ModeCommand [1]))"
proof -
  let ?e = "example_env AsyncDataCollection"
  let ?run = "example_pending Run Message.Configuration [7, 8]"
  let ?cfg = "example_pending Mode.Configuration Message.Configuration [7, 8]"
  have run: "MissionMode (loop_iter example_mode_of_byte ?e ?run) = Run"
    and run_slot: "slot (SocComms ?run) = (True, Message.Configuration, [7, 8])"
    and none: "delivered ?e = None"
    and cfg: "MissionMode (loop_iter example_mode_of_byte ?e ?cfg) = Mode.Configuration"
    and cfg_slot: "slot (SocComms ?cfg) = (True, Message.Configuration, [7, 8])"
    and to_cfg: "slot (SocComms (example_pending Run ModeCommand [0])) = (True, ModeCommand, [0])"
      "example_mode_of_byte 0 = Some Mode.Configuration"
    and to_run: "slot (SocComms (example_pending Mode.Configuration ModeCommand [1]))
        = (True, ModeCommand, [1])"
      "example_mode_of_byte 1 = Some Run"
    by code_simp+
  note g1 = mode_gating [of example_mode_of_byte ?e ?run "[7, 8]"]
  note g2 = mode_gating [of example_mode_of_byte ?e ?cfg "[7, 8]"]
  note g3 = mode_gating [of example_mode_of_byte ?e "example_pending Run ModeCommand [0]"
      _ 0 Mode.Configuration]
  note g4 = mode_gating [of example_mode_of_byte ?e
      "example_pending Mode.Configuration ModeCommand [1]" _ 1 Run]
  have "SocComms_ReceiveConfigMessage \<notin> set (iter_calls example_mode_of_byte ?e ?run)"
    "Config_Update [7, 8] \<notin> set (iter_calls example_mode_of_byte ?e ?run)"
    "slot (SocComms (loop_iter example_mode_of_byte ?e ?run)) = (True, Message.Configuration, [7, 8])"
    using g1 run run_slot none by blast+
  moreover have "Config_Update [7, 8] \<in> set (iter_calls example_mode_of_byte ?e ?cfg)"
    using g2 cfg cfg_slot by blast
  moreover have "Mission_SetRequestedMode Mode.Configuration
       \<in> set (iter_calls example_mode_of_byte ?e (example_pending Run ModeCommand [0]))"
    "mission_RequestedMode (Mission (loop_iter example_mode_of_byte ?e
              (example_pending Run ModeCommand [0]))) = Mode.Configuration"
    using g3 to_cfg by blast+
  moreover have "Mission_SetRequestedMode Run
       \<in> set (iter_calls example_mode_of_byte ?e (example_pending Mode.Configuration ModeCommand [1]))"
    using g4 to_run by blast
  ultimately show ?thesis
    using run cfg by blast
qed

text \<open>
  C6. With an \<open>EffectorCommand\<close> message pending whose payload length is not a multiple
  of 4, \<open>ReceiveEffectorCommand\<close> reports failure and leaves the mailbox as it is, and an
  iteration that starts with this slot does not call \<open>Effectors.SetCommands\<close>, whatever
  the mode, the state and the switches. With a payload of \<open>4 * n\<close> bytes the accessor
  succeeds and yields exactly \<open>n\<close> floats, whose bytes in order are the payload.
\<close>

theorem effector_command_shape:
  assumes "MessageReceived c" and "ReceivedMessage c = EffectorCommand"
  shows
    "(length (ReceivedPayload c) mod 4 \<noteq> 0 \<longrightarrow>
        ReceiveEffectorCommand c = (None, c)
        \<and> (\<forall>dec e s cmds safed.
              slot (SocComms s) = slot c
              \<longrightarrow> Effectors_SetCommands cmds safed \<notin> set (iter_calls dec e s)))
     \<and> (length (ReceivedPayload c) = 4 * n \<longrightarrow>
        (\<exists>cmds.
           ReceiveEffectorCommand c = (Some cmds, c\<lparr>MessageReceived := False\<rparr>)
           \<and> length cmds = n
           \<and> concat (map bytes_of_float32 cmds) = ReceivedPayload c))"
proof -
  have failure: "ReceiveEffectorCommand c = (None, c)"
    if "length (ReceivedPayload c) mod 4 \<noteq> 0"
    using that
    by (simp add: ReceiveEffectorCommand_def typed_receive_bad_shape decode_EffectorCommand_def)
  have no_call: "Effectors_SetCommands cmds safed \<notin> set (iter_calls dec e s)"
    if bad: "length (ReceivedPayload c) mod 4 \<noteq> 0" and same: "slot (SocComms s) = slot c"
    for dec e s cmds safed
  proof -
    have "fst (ReceiveEffectorCommand (SocComms s)) = fst (ReceiveEffectorCommand c)"
      using typed_receive_slot_cong [OF same, where k = EffectorCommand and d = decode_EffectorCommand]
      by (simp add: ReceiveEffectorCommand_def)
    then have "fst (ReceiveEffectorCommand (SocComms s)) = None"
      by (simp add: failure [OF bad])
    then show ?thesis
      by (simp add: SetCommands_in_iter_calls)
  qed
  have success: "\<exists>cmds.
           ReceiveEffectorCommand c = (Some cmds, c\<lparr>MessageReceived := False\<rparr>)
           \<and> length cmds = n
           \<and> concat (map bytes_of_float32 cmds) = ReceivedPayload c"
    if len: "length (ReceivedPayload c) = 4 * n"
  proof -
    have "decode_EffectorCommand (ReceivedPayload c) = Some (floats_of_bytes (ReceivedPayload c))"
      using len by (simp add: decode_EffectorCommand_def)
    then have "ReceiveEffectorCommand c
        = (Some (floats_of_bytes (ReceivedPayload c)), c\<lparr>MessageReceived := False\<rparr>)"
      using assms by (simp add: ReceiveEffectorCommand_def typed_receive_hit)
    then show ?thesis
      using floats_of_bytes_exact [OF len] by blast
  qed
  show ?thesis
    using failure no_call success by blast
qed


theorem effector_command_shape_witness:
  "ReceiveEffectorCommand (SocComms (example_pending Run EffectorCommand [1, 2, 3, 4, 5, 6, 7, 8, 9, 10]))
     = (None, SocComms (example_pending Run EffectorCommand [1, 2, 3, 4, 5, 6, 7, 8, 9, 10]))
   \<and> (\<forall>cmds safed.
        Effectors_SetCommands cmds safed
          \<notin> set (iter_calls example_mode_of_byte (example_env AsyncDataCollection)
                  (example_pending Run EffectorCommand [1, 2, 3, 4, 5, 6, 7, 8, 9, 10])))
   \<and> (\<exists>cmds.
        ReceiveEffectorCommand
            (SocComms (example_pending Run EffectorCommand [1, 2, 3, 4, 5, 6, 7, 8, 9, 10, 11, 12]))
          = (Some cmds,
             (SocComms (example_pending Run EffectorCommand [1, 2, 3, 4, 5, 6, 7, 8, 9, 10, 11, 12]))
               \<lparr>MessageReceived := False\<rparr>)
        \<and> length cmds = 3
        \<and> concat (map bytes_of_float32 cmds) = [1, 2, 3, 4, 5, 6, 7, 8, 9, 10, 11, 12])"
proof -
  let ?bad = "SocComms (example_pending Run EffectorCommand [1, 2, 3, 4, 5, 6, 7, 8, 9, 10])"
  let ?good = "SocComms (example_pending Run EffectorCommand [1, 2, 3, 4, 5, 6, 7, 8, 9, 10, 11, 12])"
  have bad: "MessageReceived ?bad" "ReceivedMessage ?bad = EffectorCommand"
    "length (ReceivedPayload ?bad) mod 4 \<noteq> 0"
    and good: "MessageReceived ?good" "ReceivedMessage ?good = EffectorCommand"
    "length (ReceivedPayload ?good) = 4 * 3"
    "ReceivedPayload ?good = [1, 2, 3, 4, 5, 6, 7, 8, 9, 10, 11, 12]"
    by code_simp+
  have "ReceiveEffectorCommand ?bad = (None, ?bad)"
    "\<forall>cmds safed.
        Effectors_SetCommands cmds safed
          \<notin> set (iter_calls example_mode_of_byte (example_env AsyncDataCollection)
                  (example_pending Run EffectorCommand [1, 2, 3, 4, 5, 6, 7, 8, 9, 10]))"
    using effector_command_shape [OF bad(1,2), of 0] bad(3) by blast+
  moreover have "\<exists>cmds.
        ReceiveEffectorCommand ?good = (Some cmds, ?good\<lparr>MessageReceived := False\<rparr>)
        \<and> length cmds = 3
        \<and> concat (map bytes_of_float32 cmds) = [1, 2, 3, 4, 5, 6, 7, 8, 9, 10, 11, 12]"
    using effector_command_shape [OF good(1,2), of 3] good(3,4) by simp
  ultimately show ?thesis
    by blast
qed


end
